theory Spec2Isabelle
  imports Complex_Main "HOL-Library.Stream" "HOL-Library.Monad_Syntax"
begin

section \<open>Data model of the simulation core (main.go)\<close>

text \<open>
  The embedding follows \<^verbatim>\<open>src/main.go\<close>. Conventions:
  \<^item> Go's \<^verbatim>\<open>int\<close> is modelled as \<open>int\<close>; quotient and remainder truncate towards
    zero (\<open>go_quo\<close>, \<open>go_rem\<close>). The counters of the game stay far below \<open>2^63\<close>.
  \<^item> \<^verbatim>\<open>float32\<close>/\<^verbatim>\<open>float64\<close> values are modelled as \<open>real\<close>: finite values,
    no rounding. Conversions between the two float types and between \<^verbatim>\<open>int\<close> and
    float are therefore identities or \<open>real_of_int\<close>.
  \<^item> A run-time panic (index out of range, \<^verbatim>\<open>rand.Intn\<close> of a non-positive
    bound) is the value \<open>None\<close>; a function that can panic returns an \<open>option\<close>.
  \<^item> The global source of \<^verbatim>\<open>math/rand\<close> is the field \<open>rng\<close>: a stream of raw
    draws, one consumed by each call of \<^verbatim>\<open>rand.Float64\<close>, \<^verbatim>\<open>rand.Float32\<close>
    or \<^verbatim>\<open>rand.Intn\<close>.
  \<^item> Fields that only the renderer and the audio layer read (colours, models,
    scales, bobbing, camera, sounds, menu cursors) are left out, and so are the calls
    that only play a sound.
\<close>

datatype GameState =
  StateMenu | StateSettings | StatePlaying | StatePaused | StateUpgrade | StateGameOver

text \<open>\<^verbatim>\<open>type StageType int\<close>: the stage is computed from an integer, so it stays one.\<close>

type_synonym StageType = int

definition StageBasic :: StageType where "StageBasic = 0"
definition StageMaze :: StageType where "StageMaze = 1"
definition StageHazard :: StageType where "StageHazard = 2"
definition StageArena :: StageType where "StageArena = 3"

lemmas StageType_defs = StageBasic_def StageMaze_def StageHazard_def StageArena_def

record Vector3 =
  X :: real
  Y :: real
  Z :: real

definition NewVector3 :: "real \<Rightarrow> real \<Rightarrow> real \<Rightarrow> Vector3" where
  "NewVector3 x y z = \<lparr>X = x, Y = y, Z = z\<rparr>"

record Skill =
  name :: string
  cooldown :: real
  maxCooldown :: real
  ready :: bool

record PlayerStats =
  maxHealth :: int
  damage :: int
  speed :: real
  fireRate :: real
  critChance :: real
  statPoints :: int

record Player =
  position :: Vector3
  angle :: real
  health :: int
  stats :: PlayerStats
  lastShot :: real
  skills :: "Skill list"
  id' :: int
  tiltAngle :: real
  isMoving :: bool

record Enemy =
  position :: Vector3
  velocity :: Vector3
  active :: bool
  health :: int
  maxHealth :: int
  size :: real
  isBoss :: bool

record Bullet =
  position :: Vector3
  velocity :: Vector3
  active :: bool
  damage :: int
  playerId :: int

record Particle =
  position :: Vector3
  velocity :: Vector3
  lifetime :: real
  active :: bool

record PowerUp =
  position :: Vector3
  active :: bool
  pType :: int
  rotation :: real

record Obstacle =
  position :: Vector3
  size :: Vector3
  active :: bool
  obsType :: int

record Settings =
  difficulty :: int

record Game =
  state :: GameState
  players :: "Player list"
  enemies :: "Enemy list"
  bullets :: "Bullet list"
  particles :: "Particle list"
  powerUps :: "PowerUp list"
  obstacles :: "Obstacle list"
  settings :: Settings
  score :: int
  highScore :: int
  level :: int
  spawnTimer :: real
  spawnInterval :: real
  enemiesKilled :: int
  gameTime :: real
  bossActive :: bool
  bossSpawned :: bool
  upgradeChoice :: int
  coopMode :: bool
  currentStage :: StageType
  rng :: "nat stream"

definition maxEnemies :: nat where "maxEnemies = 80"
definition maxBullets :: nat where "maxBullets = 20"
definition maxParticles :: nat where "maxParticles = 200"
definition maxPowerUps :: nat where "maxPowerUps = 5"
definition maxObstacles :: nat where "maxObstacles = 30"
definition stageInterval :: int where "stageInterval = 10"

subsection \<open>Integer arithmetic, random draws, pool scans\<close>

definition go_quo :: "int \<Rightarrow> int \<Rightarrow> int" where
  "go_quo a b = sgn a * sgn b * (\<bar>a\<bar> div \<bar>b\<bar>)"

definition go_rem :: "int \<Rightarrow> int \<Rightarrow> int" where
  "go_rem a b = a - b * go_quo a b"

definition randFloat64 :: "Game \<Rightarrow> real \<times> Game" where
  "randFloat64 g = (real (shd (rng g) mod 2 ^ 53) / 2 ^ 53, g\<lparr>rng := stl (rng g)\<rparr>)"

definition randFloat32 :: "Game \<Rightarrow> real \<times> Game" where
  "randFloat32 g = (real (shd (rng g) mod 2 ^ 24) / 2 ^ 24, g\<lparr>rng := stl (rng g)\<rparr>)"

text \<open>\<^verbatim>\<open>rand.Intn(n)\<close> for \<open>n > 0\<close>; a caller whose bound can be \<open>0\<close> checks it first.\<close>

definition randIntn :: "nat \<Rightarrow> Game \<Rightarrow> nat \<times> Game" where
  "randIntn n g = (shd (rng g) mod n, g\<lparr>rng := stl (rng g)\<rparr>)"

text \<open>
  The scan \<^verbatim>\<open>for i := range pool { if !pool[i].active { ...; break } }\<close>: the index
  of the first slot that is not active.
\<close>

fun firstFree :: "('a \<Rightarrow> bool) \<Rightarrow> 'a list \<Rightarrow> nat option" where
  "firstFree act [] = None"
| "firstFree act (x # xs) = (if \<not> act x then Some 0 else map_option Suc (firstFree act xs))"

text \<open>An indexed write \<^verbatim>\<open>xs[i] = v\<close>, which panics out of range.\<close>

definition store :: "'a list \<Rightarrow> nat \<Rightarrow> 'a \<Rightarrow> 'a list option" where
  "store xs i v = (if i < length xs then Some (xs[i := v]) else None)"

text \<open>
  A loop \<^verbatim>\<open>for i := range xs { body }\<close> runs the body for the indices
  \<open>[0..<length xs]\<close> (the slice is evaluated once, and no loop here changes a
  length): \<open>fold\<close> for a body that cannot panic, \<open>forEachM\<close> for one that can.
\<close>

fun forEachM :: "(nat \<Rightarrow> 's \<Rightarrow> 's option) \<Rightarrow> nat list \<Rightarrow> 's \<Rightarrow> 's option" where
  "forEachM body [] s = Some s"
| "forEachM body (i # rest) s =
     (case body i s of None \<Rightarrow> None | Some s' \<Rightarrow> forEachM body rest s')"

subsection \<open>CreateExplosion and SpawnPowerUp\<close>

definition spawnParticle :: "Vector3 \<Rightarrow> Game \<Rightarrow> Game" where
  "spawnParticle pos g =
     (case firstFree Particle.active (particles g) of
        None \<Rightarrow> g
      | Some i \<Rightarrow>
          let (a, g1) = randFloat64 g;
              angle = a * 2 * pi;
              (s, g2) = randFloat64 g1;
              speed = 5.0 + s * 10;
              (vy, g3) = randFloat64 g2;
              (lt, g4) = randFloat32 g3;
              p = (particles g ! i)
                    \<lparr>Particle.position := pos,
                     Particle.velocity := NewVector3 (cos angle * speed) (vy * 10) (sin angle * speed),
                     Particle.lifetime := 0.5 + lt * 0.5,
                     Particle.active := True\<rparr>
          in g4\<lparr>particles := (particles g4)[i := p]\<rparr>)"

fun CreateExplosion_loop :: "nat \<Rightarrow> Vector3 \<Rightarrow> Game \<Rightarrow> Game" where
  "CreateExplosion_loop 0 pos g = g"
| "CreateExplosion_loop (Suc n) pos g = CreateExplosion_loop n pos (spawnParticle pos g)"

definition CreateExplosion :: "Vector3 \<Rightarrow> int \<Rightarrow> Game \<Rightarrow> Game" where
  "CreateExplosion pos count g = CreateExplosion_loop (nat (min count 15)) pos g"

definition SpawnPowerUp :: "Vector3 \<Rightarrow> Game \<Rightarrow> Game" where
  "SpawnPowerUp pos g =
     (let (r, g1) = randFloat32 g in
      if r > 0.3 then g1
      else (case firstFree PowerUp.active (powerUps g1) of
              None \<Rightarrow> g1
            | Some i \<Rightarrow>
                let (t, g2) = randIntn 3 g1;
                    pu = (powerUps g1 ! i)
                           \<lparr>PowerUp.position := pos\<lparr>Y := 1\<rparr>,
                            PowerUp.pType := int t,
                            PowerUp.active := True\<rparr>
                in g2\<lparr>powerUps := (powerUps g2)[i := pu]\<rparr>))"

subsection \<open>Stage generation\<close>

function GenerateMaze_loop1 :: "int \<Rightarrow> nat \<Rightarrow> Obstacle list \<Rightarrow> (nat \<times> Obstacle list) option" where
  "GenerateMaze_loop1 i obsIndex obs =
     (if i \<le> 20 then
        (if obsIndex \<ge> maxObstacles then Some (obsIndex, obs)
         else (case store obs obsIndex
                      \<lparr>Obstacle.position = NewVector3 (real_of_int i) 1 0,
                       Obstacle.size = NewVector3 2 3 15,
                       Obstacle.active = True, obsType = 0\<rparr> of
                 None \<Rightarrow> None
               | Some obs' \<Rightarrow> GenerateMaze_loop1 (i + 10) (obsIndex + 1) obs'))
      else Some (obsIndex, obs))"
  by pat_completeness auto
termination
  by (relation "measure (\<lambda>(i, _, _). nat (21 - i))") auto

function GenerateMaze_loop2 :: "int \<Rightarrow> nat \<Rightarrow> Obstacle list \<Rightarrow> (nat \<times> Obstacle list) option" where
  "GenerateMaze_loop2 i obsIndex obs =
     (if i \<le> 15 then
        (if obsIndex \<ge> maxObstacles then Some (obsIndex, obs)
         else (case store obs obsIndex
                      \<lparr>Obstacle.position = NewVector3 0 1 (real_of_int i),
                       Obstacle.size = NewVector3 15 3 2,
                       Obstacle.active = True, obsType = 0\<rparr> of
                 None \<Rightarrow> None
               | Some obs' \<Rightarrow> GenerateMaze_loop2 (i + 10) (obsIndex + 1) obs'))
      else Some (obsIndex, obs))"
  by pat_completeness auto
termination
  by (relation "measure (\<lambda>(i, _, _). nat (16 - i))") auto

declare GenerateMaze_loop1.simps [simp del] GenerateMaze_loop2.simps [simp del]

definition GenerateMaze :: "Game \<Rightarrow> Game option" where
  "GenerateMaze g =
     (case GenerateMaze_loop1 (-20) 0 (obstacles g) of
        None \<Rightarrow> None
      | Some (obsIndex, obs) \<Rightarrow>
          (case GenerateMaze_loop2 (-15) obsIndex obs of
             None \<Rightarrow> None
           | Some (obsIndex', obs') \<Rightarrow> Some (g\<lparr>obstacles := obs'\<rparr>)))"

definition hazardAt :: "nat \<Rightarrow> Game \<Rightarrow> Game option" where
  "hazardAt obsIndex g =
     (let (a, g1) = randFloat64 g;
          angle = a * 2 * pi;
          (d, g2) = randFloat64 g1;
          distance = 10.0 + d * 10
      in map_option (\<lambda>obs'. g2\<lparr>obstacles := obs'\<rparr>)
           (store (obstacles g2) obsIndex
              \<lparr>Obstacle.position = NewVector3 (cos angle * distance) 0.5 (sin angle * distance),
               Obstacle.size = NewVector3 3 1 3,
               Obstacle.active = True, obsType = 1\<rparr>))"

function GenerateHazards_loop :: "int \<Rightarrow> nat \<Rightarrow> Game \<Rightarrow> Game option" where
  "GenerateHazards_loop i obsIndex g =
     (if i < 10 \<and> obsIndex < maxObstacles then
        (case hazardAt obsIndex g of
           None \<Rightarrow> None
         | Some g' \<Rightarrow> GenerateHazards_loop (i + 1) (obsIndex + 1) g')
      else Some g)"
  by pat_completeness auto
termination
  by (relation "measure (\<lambda>(i, _, _). nat (10 - i))") auto

declare GenerateHazards_loop.simps [simp del]

definition GenerateHazards :: "Game \<Rightarrow> Game option" where
  "GenerateHazards g = GenerateHazards_loop 0 0 g"

definition arenaWalls :: "(Vector3 \<times> Vector3) list" where
  "arenaWalls =
     [(NewVector3 0 1 (-18), NewVector3 30 3 2),
      (NewVector3 0 1 18, NewVector3 30 3 2),
      (NewVector3 (-18) 1 0, NewVector3 2 3 30),
      (NewVector3 18 1 0, NewVector3 2 3 30)]"

fun GenerateArena_loop :: "(Vector3 \<times> Vector3) list \<Rightarrow> nat \<Rightarrow> Obstacle list \<Rightarrow> Obstacle list option" where
  "GenerateArena_loop [] obsIndex obs = Some obs"
| "GenerateArena_loop (wall # walls) obsIndex obs =
     (if obsIndex \<ge> maxObstacles then Some obs
      else (case store obs obsIndex
                   \<lparr>Obstacle.position = fst wall, Obstacle.size = snd wall,
                    Obstacle.active = True, obsType = 0\<rparr> of
              None \<Rightarrow> None
            | Some obs' \<Rightarrow> GenerateArena_loop walls (obsIndex + 1) obs'))"

definition GenerateArena :: "Game \<Rightarrow> Game option" where
  "GenerateArena g = map_option (\<lambda>obs. g\<lparr>obstacles := obs\<rparr>) (GenerateArena_loop arenaWalls 0 (obstacles g))"

text \<open>The stage type that \<^verbatim>\<open>GenerateStage\<close> computes from the level.\<close>

definition archetype :: "int \<Rightarrow> StageType" where
  "archetype lvl = go_rem (go_quo (lvl - 1) stageInterval) 4"

definition GenerateStage :: "Game \<Rightarrow> Game option" where
  "GenerateStage g =
     (let g1 = g\<lparr>obstacles := map (\<lambda>ob. ob\<lparr>Obstacle.active := False\<rparr>) (obstacles g)\<rparr>;
          stageNum = go_quo (level g1 - 1) stageInterval;
          g2 = g1\<lparr>currentStage := go_rem stageNum 4\<rparr>
      in if currentStage g2 = StageMaze then GenerateMaze g2
         else if currentStage g2 = StageHazard then GenerateHazards g2
         else if currentStage g2 = StageArena then GenerateArena g2
         else Some g2)"

subsection \<open>CheckObstacleCollision\<close>

text \<open>The condition of the \<^verbatim>\<open>if\<close> in the loop body (the comment calls it an AABB test).\<close>

definition aabbHit :: "Vector3 \<Rightarrow> real \<Rightarrow> Obstacle \<Rightarrow> bool" where
  "aabbHit pos radius obs \<longleftrightarrow>
     X pos + radius > X (Obstacle.position obs) - X (Obstacle.size obs) / 2 \<and>
     X pos - radius < X (Obstacle.position obs) + X (Obstacle.size obs) / 2 \<and>
     Z pos + radius > Z (Obstacle.position obs) - Z (Obstacle.size obs) / 2 \<and>
     Z pos - radius < Z (Obstacle.position obs) + Z (Obstacle.size obs) / 2"

fun CheckObstacleCollision_loop :: "Obstacle list \<Rightarrow> Vector3 \<Rightarrow> real \<Rightarrow> bool" where
  "CheckObstacleCollision_loop [] pos radius = False"
| "CheckObstacleCollision_loop (obs # rest) pos radius =
     (if \<not> Obstacle.active obs then CheckObstacleCollision_loop rest pos radius
      else if aabbHit pos radius obs then True
      else CheckObstacleCollision_loop rest pos radius)"

definition CheckObstacleCollision :: "Game \<Rightarrow> Vector3 \<Rightarrow> real \<Rightarrow> bool" where
  "CheckObstacleCollision g pos radius = CheckObstacleCollision_loop (obstacles g) pos radius"

subsection \<open>Spawning\<close>

definition SpawnBoss :: "Game \<Rightarrow> Game" where
  "SpawnBoss g =
     (case firstFree Enemy.active (enemies g) of
        None \<Rightarrow> g
      | Some i \<Rightarrow>
          let (a, g1) = randFloat64 g;
              angle = a * 2 * pi;
              distance = 30.0;
              bossHealth = 50 + level g1 * 10;
              bossSize = 4.0;
              e = \<lparr>Enemy.position = NewVector3 (cos angle * distance) 1.5 (sin angle * distance),
                   Enemy.velocity = NewVector3 0 0 0,
                   Enemy.active = True,
                   Enemy.health = bossHealth,
                   Enemy.maxHealth = bossHealth,
                   Enemy.size = bossSize,
                   isBoss = True\<rparr>
          in g1\<lparr>enemies := (enemies g1)[i := e], bossActive := True, bossSpawned := True\<rparr>)"

text \<open>
  \<^verbatim>\<open>SpawnEnemy\<close>: the loop runs over the slot indices; \<^verbatim>\<open>continue\<close> goes on with
  the remaining slots, \<^verbatim>\<open>break\<close> ends the scan. \<open>spawnCandidate\<close> is the start of
  the body at a free slot (two draws and the candidate position), \<open>placeEnemy\<close> its
  end once the candidate is accepted; the last draw is the one of the colour
  (\<^verbatim>\<open>rand.Intn(56)\<close>), and \<^verbatim>\<open>rand.Intn(len(g.players))\<close> panics without players.
\<close>

definition spawnCandidate :: "Game \<Rightarrow> Vector3 \<times> Game" where
  "spawnCandidate g =
     (let (a, g1) = randFloat64 g;
          angle = a * 2 * pi;
          (d, g2) = randFloat64 g1;
          distance = 25.0 + d * 5
      in (NewVector3 (cos angle * distance) 0.75 (sin angle * distance), g2))"

definition placeEnemy :: "nat \<Rightarrow> Vector3 \<Rightarrow> Game \<Rightarrow> Game option" where
  "placeEnemy i pos g2 =
     (if players g2 = [] then None
      else
        (let (k, g3) = randIntn (length (players g2)) g2;
             targetPlayer = players g3 ! k;
             dx = X (Player.position targetPlayer) - X pos;
             dz = Z (Player.position targetPlayer) - Z pos;
             dist = sqrt (dx * dx + dz * dz);
             (s, g4) = randFloat64 g3;
             speed = 3.0 + s * 2 + real_of_int (level g4) * 0.5;
             (z, g5) = randFloat32 g4;
             size = 1.0 + z * 0.5;
             (c, g6) = randIntn 56 g5;
             e = \<lparr>Enemy.position = NewVector3 (X pos) (Y pos) (Z pos),
                  Enemy.velocity = NewVector3 (dx / dist * speed) 0 (dz / dist * speed),
                  Enemy.active = True,
                  Enemy.health = 1 + go_quo (level g6 - 1) 3,
                  Enemy.maxHealth = 1 + go_quo (level g6 - 1) 3,
                  Enemy.size = size,
                  isBoss = False\<rparr>
         in Some (g6\<lparr>enemies := (enemies g6)[i := e]\<rparr>)))"

fun SpawnEnemy_loop :: "nat list \<Rightarrow> Game \<Rightarrow> Game option" where
  "SpawnEnemy_loop [] g = Some g"
| "SpawnEnemy_loop (i # rest) g =
     (if \<not> Enemy.active (enemies g ! i) then
        (let (pos, g2) = spawnCandidate g
         in if CheckObstacleCollision g2 pos 1.0 then SpawnEnemy_loop rest g2
            else placeEnemy i pos g2)
      else SpawnEnemy_loop rest g)"

definition SpawnEnemy :: "Game \<Rightarrow> Game option" where
  "SpawnEnemy g = SpawnEnemy_loop [0..<length (enemies g)] g"

text \<open>
  \<^verbatim>\<open>ShootBullet(player *Player)\<close> and \<^verbatim>\<open>UseSkill(player *Player, ...)\<close> get a
  pointer into \<^verbatim>\<open>g.players\<close>. Neither they nor their callees read or write
  \<^verbatim>\<open>g.players\<close> otherwise, so the model passes the player as a value and returns
  it updated; the caller stores it back into its slot.
\<close>

definition ShootBullet :: "Player \<Rightarrow> Game \<Rightarrow> Player \<times> Game" where
  "ShootBullet player g =
     (let now = gameTime g in
      if now - lastShot player < fireRate (stats player) then (player, g)
      else (case firstFree Bullet.active (bullets g) of
              None \<Rightarrow> (player, g)
            | Some i \<Rightarrow>
                let dirX = cos (angle player);
                    dirZ = sin (angle player);
                    speed = 40.0;
                    (r, g1) = randFloat32 g;
                    dmg = (if r < critChance (stats player)
                           then PlayerStats.damage (stats player) * 3
                           else PlayerStats.damage (stats player));
                    b = (bullets g ! i)
                          \<lparr>Bullet.position := (Player.position player)\<lparr>Y := 1\<rparr>,
                           Bullet.velocity := NewVector3 (dirX * speed) 0 (dirZ * speed),
                           Bullet.active := True,
                           playerId := id' player,
                           Bullet.damage := dmg\<rparr>
                in (player\<lparr>lastShot := now\<rparr>, g1\<lparr>bullets := (bullets g1)[i := b]\<rparr>)))"

subsection \<open>KillEnemy\<close>

text \<open>
  The two statements that follow both level increments of \<^verbatim>\<open>KillEnemy\<close>:
  regenerate the stage when the level starts a stage interval, open the upgrade
  screen when \<^verbatim>\<open>level%3 == 1 && level > 1\<close>.
\<close>

definition levelChecks :: "Game \<Rightarrow> Game option" where
  "levelChecks g =
     (case (if go_rem (level g) stageInterval = 1 then GenerateStage g else Some g) of
        None \<Rightarrow> None
      | Some g1 \<Rightarrow>
          Some (if go_rem (level g1) 3 = 1 \<and> level g1 > 1 then g1\<lparr>state := StateUpgrade\<rparr> else g1))"

definition KillEnemy :: "int \<Rightarrow> Game \<Rightarrow> Game option" where
  "KillEnemy index g =
     (if index < 0 \<or> index \<ge> int (length (enemies g)) then None
      else
        (let i = nat index;
             g1 = g\<lparr>enemies := (enemies g)[i := (enemies g ! i)\<lparr>Enemy.active := False\<rparr>]\<rparr>;
             e = enemies g1 ! i
         in case (if isBoss e then
                    (let g2 = g1\<lparr>score := score g1 + 500\<rparr>;
                         g3 = g2\<lparr>bossActive := False\<rparr>;
                         g4 = CreateExplosion (Enemy.position e) 50 g3;
                         g5 = g4\<lparr>level := level g4 + 1\<rparr>;
                         g6 = g5\<lparr>bossSpawned := False\<rparr>
                     in levelChecks g6)
                  else Some (g1\<lparr>score := score g1 + 10 * level g1\<rparr>)) of
              None \<Rightarrow> None
            | Some g7 \<Rightarrow>
                (let g8 = g7\<lparr>enemiesKilled := enemiesKilled g7 + 1\<rparr>;
                     g9 = CreateExplosion (Enemy.position e) 15 g8;
                     g10 = SpawnPowerUp (Enemy.position e) g9
                 in if \<not> isBoss e \<and> go_rem (enemiesKilled g10) 20 = 0 \<and> go_rem (level g10) 10 \<noteq> 0
                    then (let g11 = g10\<lparr>level := level g10 + 1\<rparr>;
                              g12 = g11\<lparr>spawnInterval := max 0.5 (1.5 - real_of_int (level g11) * 0.05)\<rparr>
                          in levelChecks g12)
                    else Some g10)))"

subsection \<open>UseSkill\<close>

definition explodeEnemy :: "Player \<Rightarrow> nat \<Rightarrow> Game \<Rightarrow> Game option" where
  "explodeEnemy player i g =
     (if Enemy.active (enemies g ! i) then
        (let dx = X (Enemy.position (enemies g ! i)) - X (Player.position player);
             dz = Z (Enemy.position (enemies g ! i)) - Z (Player.position player);
             dist = sqrt (dx * dx + dz * dz)
         in if dist < 10.0 then
              (let dmg = (if isBoss (enemies g ! i)
                          then 10 * PlayerStats.damage (stats player)
                          else 3 * PlayerStats.damage (stats player));
                   g1 = g\<lparr>enemies := (enemies g)
                          [i := (enemies g ! i)\<lparr>Enemy.health := Enemy.health (enemies g ! i) - dmg\<rparr>]\<rparr>;
                   g2 = CreateExplosion (Enemy.position (enemies g1 ! i)) 10 g1
               in if Enemy.health (enemies g2 ! i) \<le> 0 then KillEnemy (int i) g2 else Some g2)
            else Some g)
      else Some g)"

definition UseSkill_explosion :: "Player \<Rightarrow> Game \<Rightarrow> Game option" where
  "UseSkill_explosion player g = forEachM (explodeEnemy player) [0..<length (enemies g)] g"

definition radialBullet :: "real \<Rightarrow> Player \<Rightarrow> Game \<Rightarrow> Game" where
  "radialBullet angle' player g =
     (let rad = angle' * pi / 180.0 in
      case firstFree Bullet.active (bullets g) of
        None \<Rightarrow> g
      | Some i \<Rightarrow>
          let speed = 35.0;
              b = (bullets g ! i)
                    \<lparr>Bullet.position := (Player.position player)\<lparr>Y := 1\<rparr>,
                     Bullet.velocity := NewVector3 (cos rad * speed) 0 (sin rad * speed),
                     Bullet.active := True,
                     Bullet.damage := PlayerStats.damage (stats player),
                     playerId := id' player\<rparr>
          in g\<lparr>bullets := (bullets g)[i := b]\<rparr>)"

function UseSkill_radial :: "real \<Rightarrow> Player \<Rightarrow> Game \<Rightarrow> Game" where
  "UseSkill_radial angle' player g =
     (if angle' < 360 then UseSkill_radial (angle' + 30) player (radialBullet angle' player g)
      else g)"
  by pat_completeness auto
termination
proof (relation "measure (\<lambda>(a, _, _). nat \<lceil>(360 - a) / 30\<rceil>)", goal_cases)
  case 1
  show ?case by simp
next
  case (2 a player g)
  define x where "x = (360 - a) / 30"
  have e: "(360 - (a + 30)) / 30 = x - 1" by (simp add: x_def field_simps)
  have "\<lceil>x - 1\<rceil> = \<lceil>x\<rceil> - 1" by (rule ceiling_diff_one)
  moreover have "0 < x" using 2 by (simp add: x_def)
  then have "\<lceil>x\<rceil> \<ge> 1" by (simp add: Suc_le_eq)
  ultimately have "nat \<lceil>x - 1\<rceil> < nat \<lceil>x\<rceil>" by simp
  then show ?case unfolding in_measure prod.case e x_def .
qed

declare UseSkill_radial.simps [simp del]

definition UseSkill :: "Player \<Rightarrow> int \<Rightarrow> Game \<Rightarrow> (Player \<times> Game) option" where
  "UseSkill player skillIndex g =
     (if skillIndex < 0 \<or> skillIndex \<ge> int (length (skills player)) then None
      else if \<not> ready (skills player ! nat skillIndex) then Some (player, g)
      else
        (case (if skillIndex = 0 then
                 (case UseSkill_explosion player g of
                    None \<Rightarrow> None
                  | Some g1 \<Rightarrow> Some (player, CreateExplosion (Player.position player) 30 g1))
               else if skillIndex = 1 then Some (player, UseSkill_radial 0 player g)
               else if skillIndex = 2 then
                 (let healAmount = 30;
                      player1 = player\<lparr>Player.health :=
                                  min (Player.health player + healAmount) (PlayerStats.maxHealth (stats player))\<rparr>
                  in Some (player1, CreateExplosion (Player.position player1) 20 g))
               else Some (player, g)) of
           None \<Rightarrow> None
         | Some (player2, g2) \<Rightarrow>
             (let k = nat skillIndex;
                  sk1 = (skills player2)[k := (skills player2 ! k)\<lparr>ready := False\<rparr>];
                  sk2 = sk1[k := (sk1 ! k)\<lparr>cooldown := maxCooldown (sk1 ! k)\<rparr>]
              in Some (player2\<lparr>skills := sk2\<rparr>, g2))))"

subsection \<open>Creation, reset and upgrades\<close>

text \<open>The \<^verbatim>\<open>PlayerStats\<close> literal of \<^verbatim>\<open>createPlayer\<close> and of \<^verbatim>\<open>ResetGame\<close>.\<close>

definition defaultStats :: PlayerStats where
  "defaultStats =
     \<lparr>PlayerStats.maxHealth = 100, PlayerStats.damage = 1, speed = 12.0,
      fireRate = 0.15, critChance = 0.05, statPoints = 0\<rparr>"

definition createPlayer :: "int \<Rightarrow> Vector3 \<Rightarrow> Player" where
  "createPlayer pid pos =
     (let stats' = defaultStats;
          skills' = [\<lparr>name = ''Explosion'', cooldown = 0, maxCooldown = 8.0, ready = True\<rparr>,
                     \<lparr>name = ''Radial Shot'', cooldown = 0, maxCooldown = 10.0, ready = True\<rparr>,
                     \<lparr>name = ''Energy Shield'', cooldown = 0, maxCooldown = 15.0, ready = True\<rparr>]
      in \<lparr>Player.position = pos, angle = 0, Player.health = PlayerStats.maxHealth stats',
          stats = stats', lastShot = 0, skills = skills', id' = pid,
          tiltAngle = 0, isMoving = False\<rparr>)"

definition resetPlayer :: "bool \<Rightarrow> nat \<Rightarrow> Player \<Rightarrow> Player" where
  "resetPlayer coop i p =
     (let p1 = p\<lparr>Player.position :=
                  (if coop then (if i = 0 then NewVector3 (-3) 0.5 0 else NewVector3 3 0.5 0)
                   else NewVector3 0 0.5 0)\<rparr>;
          p2 = p1\<lparr>angle := 0\<rparr>;
          p3 = p2\<lparr>stats := defaultStats\<rparr>;
          p4 = p3\<lparr>Player.health := PlayerStats.maxHealth (stats p3)\<rparr>;
          p5 = p4\<lparr>lastShot := 0\<rparr>
      in p5\<lparr>skills := map (\<lambda>s. s\<lparr>cooldown := 0, ready := True\<rparr>) (skills p5)\<rparr>)"

definition setHealth :: "int \<Rightarrow> Player \<Rightarrow> Player" where
  "setHealth h p = p\<lparr>stats := (stats p)\<lparr>PlayerStats.maxHealth := h\<rparr>, Player.health := h\<rparr>"

definition ResetGame :: "Game \<Rightarrow> Game option" where
  "ResetGame g =
     (let g1 = g\<lparr>players := map (\<lambda>i. resetPlayer (coopMode g) i (players g ! i))
                                 [0..<length (players g)]\<rparr>;
          g2 = g1\<lparr>score := 0, level := 1, spawnTimer := 0, spawnInterval := 1.5,
                  enemiesKilled := 0, gameTime := 0, bossActive := False, bossSpawned := False,
                  upgradeChoice := -1, currentStage := StageBasic\<rparr>;
          g3 = (if difficulty (settings g2) = 0
                then g2\<lparr>spawnInterval := 2.0, players := map (setHealth 150) (players g2)\<rparr>
                else if difficulty (settings g2) = 2
                then g2\<lparr>spawnInterval := 1.0, players := map (setHealth 75) (players g2)\<rparr>
                else g2);
          g4 = g3\<lparr>enemies := map (\<lambda>e. e\<lparr>Enemy.active := False\<rparr>) (enemies g3),
                  bullets := map (\<lambda>b. b\<lparr>Bullet.active := False\<rparr>) (bullets g3),
                  particles := map (\<lambda>p. p\<lparr>Particle.active := False\<rparr>) (particles g3),
                  powerUps := map (\<lambda>p. p\<lparr>PowerUp.active := False\<rparr>) (powerUps g3),
                  obstacles := map (\<lambda>ob. ob\<lparr>Obstacle.active := False\<rparr>) (obstacles g3)\<rparr>
      in GenerateStage g4)"

definition StartGame :: "bool \<Rightarrow> Game \<Rightarrow> Game option" where
  "StartGame coop g =
     (let g1 = g\<lparr>coopMode := coop, state := StatePlaying\<rparr>;
          g2 = (if coop
                then g1\<lparr>players := [createPlayer 0 (NewVector3 (-3) 0.5 0),
                                    createPlayer 1 (NewVector3 3 0.5 0)]\<rparr>
                else g1\<lparr>players := [createPlayer 0 (NewVector3 0 0.5 0)]\<rparr>)
      in ResetGame g2)"

text \<open>
  \<^verbatim>\<open>NewGame\<close>: the pools at their capacities, every other field at Go's zero value
  but the ones the literal sets. The argument is the state of the random source.
\<close>

definition zeroVector3 :: Vector3 where
  "zeroVector3 = \<lparr>X = 0, Y = 0, Z = 0\<rparr>"

definition NewGame :: "nat stream \<Rightarrow> Game" where
  "NewGame r =
     \<lparr>state = StateMenu,
      players = [],
      enemies = replicate maxEnemies
        \<lparr>Enemy.position = zeroVector3, Enemy.velocity = zeroVector3, Enemy.active = False,
         Enemy.health = 0, Enemy.maxHealth = 0, Enemy.size = 0, isBoss = False\<rparr>,
      bullets = replicate maxBullets
        \<lparr>Bullet.position = zeroVector3, Bullet.velocity = zeroVector3, Bullet.active = False,
         Bullet.damage = 0, playerId = 0\<rparr>,
      particles = replicate maxParticles
        \<lparr>Particle.position = zeroVector3, Particle.velocity = zeroVector3, lifetime = 0,
         Particle.active = False\<rparr>,
      powerUps = replicate maxPowerUps
        \<lparr>PowerUp.position = zeroVector3, PowerUp.active = False, pType = 0, rotation = 0\<rparr>,
      obstacles = replicate maxObstacles
        \<lparr>Obstacle.position = zeroVector3, Obstacle.size = zeroVector3, Obstacle.active = False,
         obsType = 0\<rparr>,
      settings = \<lparr>difficulty = 1\<rparr>,
      score = 0, highScore = 0, level = 0, spawnTimer = 0, spawnInterval = 0,
      enemiesKilled = 0, gameTime = 0, bossActive = False, bossSpawned = False,
      upgradeChoice = 0, coopMode = False, currentStage = StageBasic, rng = r\<rparr>"

definition upgradePlayer :: "int \<Rightarrow> Player \<Rightarrow> Player" where
  "upgradePlayer choice p =
     (if choice = 0 then
        (let p1 = p\<lparr>stats := (stats p)\<lparr>PlayerStats.maxHealth := PlayerStats.maxHealth (stats p) + 20\<rparr>\<rparr>
         in p1\<lparr>Player.health := PlayerStats.maxHealth (stats p1)\<rparr>)
      else if choice = 1 then
        p\<lparr>stats := (stats p)\<lparr>PlayerStats.damage := PlayerStats.damage (stats p) + 1\<rparr>\<rparr>
      else if choice = 2 then p\<lparr>stats := (stats p)\<lparr>speed := speed (stats p) + 2.0\<rparr>\<rparr>
      else if choice = 3 then
        p\<lparr>stats := (stats p)\<lparr>fireRate := max (fireRate (stats p) - 0.02) 0.05\<rparr>\<rparr>
      else if choice = 4 then
        p\<lparr>stats := (stats p)\<lparr>critChance := min (critChance (stats p) + 0.05) 0.5\<rparr>\<rparr>
      else p)"

definition ApplyUpgrade :: "int \<Rightarrow> Game \<Rightarrow> Game" where
  "ApplyUpgrade choice g =
     (let g1 = g\<lparr>players := map (upgradePlayer choice) (players g)\<rparr>;
          g2 = g1\<lparr>state := StatePlaying\<rparr>
      in g2\<lparr>upgradeChoice := -1\<rparr>)"

definition clampPlayerToStageBounds :: "Game \<Rightarrow> Player \<Rightarrow> real \<Rightarrow> Player" where
  "clampPlayerToStageBounds g player margin =
     (let half = (if currentStage g = StageArena then 18.0 - margin
                  else if currentStage g = StageMaze then 28.0 - margin
                  else if currentStage g = StageHazard then 29.0 - margin
                  else 30.0 - margin);
          p1 = (if X (Player.position player) < - half
                then player\<lparr>Player.position := (Player.position player)\<lparr>X := - half\<rparr>\<rparr> else player);
          p2 = (if X (Player.position p1) > half
                then p1\<lparr>Player.position := (Player.position p1)\<lparr>X := half\<rparr>\<rparr> else p1);
          p3 = (if Z (Player.position p2) < - half
                then p2\<lparr>Player.position := (Player.position p2)\<lparr>Z := - half\<rparr>\<rparr> else p2)
      in if Z (Player.position p3) > half
         then p3\<lparr>Player.position := (Player.position p3)\<lparr>Z := half\<rparr>\<rparr> else p3)"

subsection \<open>Update: the tick in the Playing state\<close>

text \<open>
  What the tick asks of raylib: the key and button states of the frame, the mouse
  position and the projection of a world position to the screen (which depends on
  the camera, a field of the renderer).
\<close>

datatype Key =
  KeyP | KeyW | KeyS | KeyA | KeyD | KeySpace | KeyUp | KeyDown | KeyLeft | KeyRight
  | KeyKp0 | KeyKp1 | KeyKp2 | KeyKp3 | KeyKp4 | KeyKp6 | KeyKp8
  | KeyQ | KeyE | KeyF | KeyOne | KeyTwo | KeyThree

record Input =
  IsKeyPressed :: "Key \<Rightarrow> bool"
  IsKeyDown :: "Key \<Rightarrow> bool"
  IsMouseButtonDown :: bool
  GetMousePosition :: "real \<times> real"
  GetWorldToScreen :: "Vector3 \<Rightarrow> real \<times> real"

text \<open>\<^verbatim>\<open>math.Atan2(y, x)\<close> on finite arguments (signed zeros are not told apart).\<close>

definition Atan2 :: "real \<Rightarrow> real \<Rightarrow> real" where
  "Atan2 y x =
     (if x > 0 then arctan (y / x)
      else if x < 0 then (if y \<ge> 0 then arctan (y / x) + pi else arctan (y / x) - pi)
      else if y > 0 then pi / 2
      else if y < 0 then - pi / 2
      else 0)"

text \<open>The skill cooldown loop of a player, for one skill.\<close>

definition coolDown :: "real \<Rightarrow> Skill \<Rightarrow> Skill" where
  "coolDown dt s =
     (if \<not> ready s then
        (let s1 = s\<lparr>cooldown := cooldown s - dt\<rparr>
         in if cooldown s1 \<le> 0 then (s1\<lparr>ready := True\<rparr>)\<lparr>cooldown := 0\<rparr> else s1)
      else s)"

text \<open>
  The movement keys of a player. The source has the block twice, for W/S/A/D and
  for the arrow keys; the result is the new position, the moving flag and the player
  with its tilt updated.
\<close>

definition moveInput ::
    "Input \<Rightarrow> Key \<Rightarrow> Key \<Rightarrow> Key \<Rightarrow> Key \<Rightarrow> real \<Rightarrow> Player \<Rightarrow> Vector3 \<times> bool \<times> Player" where
  "moveInput inp up down left right dt player =
     (let speed' = speed (stats player) * dt;
          newPos = Player.position player;
          isMoving' = False;
          (newPos1, isMoving1) =
            (if IsKeyDown inp up then (newPos\<lparr>Z := Z newPos - speed'\<rparr>, True)
             else (newPos, isMoving'));
          (newPos2, isMoving2) =
            (if IsKeyDown inp down then (newPos1\<lparr>Z := Z newPos1 + speed'\<rparr>, True)
             else (newPos1, isMoving1))
      in if IsKeyDown inp left then
           (newPos2\<lparr>X := X newPos2 - speed'\<rparr>, True,
            player\<lparr>tiltAngle := min (tiltAngle player + dt * 2) 0.1\<rparr>)
         else if IsKeyDown inp right then
           (newPos2\<lparr>X := X newPos2 + speed'\<rparr>, True,
            player\<lparr>tiltAngle := max (tiltAngle player - dt * 2) (-0.1)\<rparr>)
         else
           (newPos2, isMoving2,
            (if tiltAngle player > 0
             then player\<lparr>tiltAngle := max 0 (tiltAngle player - dt * 2)\<rparr>
             else player\<lparr>tiltAngle := min 0 (tiltAngle player + dt * 2)\<rparr>)))"

definition controlsP1 :: "real \<Rightarrow> Input \<Rightarrow> Player \<Rightarrow> Game \<Rightarrow> Vector3 \<times> bool \<times> Player \<times> Game" where
  "controlsP1 dt inp player g =
     (let (newPos, isMoving', player1) = moveInput inp KeyW KeyS KeyA KeyD dt player;
          (player2, g1) = (if IsMouseButtonDown inp \<or> IsKeyDown inp KeySpace
                           then ShootBullet player1 g else (player1, g));
          mousePos = GetMousePosition inp;
          screenPos = GetWorldToScreen inp (Player.position player2);
          dx = fst mousePos - fst screenPos;
          dy = snd mousePos - snd screenPos
      in (newPos, isMoving', player2\<lparr>angle := Atan2 dy dx\<rparr>, g1))"

text \<open>
  The auto-aim scan of player 2: the index of the nearest active enemy, if any,
  starting from \<^verbatim>\<open>minD = 1e6\<close>.
\<close>

fun nearestEnemy :: "nat list \<Rightarrow> Player \<Rightarrow> Game \<Rightarrow> real \<Rightarrow> nat option \<Rightarrow> nat option" where
  "nearestEnemy [] player g minD nearest = nearest"
| "nearestEnemy (i # rest) player g minD nearest =
     (if \<not> Enemy.active (enemies g ! i) then nearestEnemy rest player g minD nearest
      else
        (let dx = X (Enemy.position (enemies g ! i)) - X (Player.position player);
             dz = Z (Enemy.position (enemies g ! i)) - Z (Player.position player);
             d = sqrt (dx * dx + dz * dz)
         in if d < minD then nearestEnemy rest player g d (Some i)
            else nearestEnemy rest player g minD nearest))"

definition shootAt :: "real \<Rightarrow> Player \<Rightarrow> Game \<Rightarrow> Player \<times> Game" where
  "shootAt a player g = ShootBullet (player\<lparr>angle := a\<rparr>) g"

definition shootIf :: "bool \<Rightarrow> real \<Rightarrow> Player \<times> Game \<Rightarrow> Player \<times> Game" where
  "shootIf down a pg = (if down then shootAt a (fst pg) (snd pg) else pg)"

definition autoAim :: "Input \<Rightarrow> Player \<times> Game \<Rightarrow> Player \<times> Game" where
  "autoAim inp pg =
     (let player = fst pg; g = snd pg in
      if IsKeyPressed inp KeyKp0 then
        (case nearestEnemy [0..<length (enemies g)] player g 1000000 None of
           None \<Rightarrow> pg
         | Some n \<Rightarrow>
             shootAt (Atan2 (Z (Enemy.position (enemies g ! n)) - Z (Player.position player))
                            (X (Enemy.position (enemies g ! n)) - X (Player.position player)))
                     player g)
      else pg)"

text \<open>
  Player 2: the arrow keys, then one guarded shot for each of the keys 8, 2, 4, 6 of
  the number pad, in this order, then the auto-aim key.
\<close>

definition controlsP2 :: "real \<Rightarrow> Input \<Rightarrow> Player \<Rightarrow> Game \<Rightarrow> Vector3 \<times> bool \<times> Player \<times> Game" where
  "controlsP2 dt inp player g =
     (let (newPos, isMoving', player1) = moveInput inp KeyUp KeyDown KeyLeft KeyRight dt player;
          pg2 = shootIf (IsKeyDown inp KeyKp8) (- pi / 2) (player1, g);
          pg3 = shootIf (IsKeyDown inp KeyKp2) (pi / 2) pg2;
          pg4 = shootIf (IsKeyDown inp KeyKp4) pi pg3;
          pg5 = shootIf (IsKeyDown inp KeyKp6) 0 pg4;
          pg6 = autoAim inp pg5
      in (newPos, isMoving', fst pg6, snd pg6))"

text \<open>The skill keys: three guarded calls of \<^verbatim>\<open>UseSkill\<close>, in order.\<close>

definition skillKey :: "bool \<Rightarrow> int \<Rightarrow> (Player \<times> Game) option \<Rightarrow> (Player \<times> Game) option" where
  "skillKey pressed skillIndex r =
     (case r of
        None \<Rightarrow> None
      | Some (player, g) \<Rightarrow> if pressed then UseSkill player skillIndex g else Some (player, g))"

definition skillKeys :: "Input \<Rightarrow> nat \<Rightarrow> Player \<Rightarrow> Game \<Rightarrow> (Player \<times> Game) option" where
  "skillKeys inp pIdx player g =
     (if pIdx = 0 then
        skillKey (IsKeyPressed inp KeyF) 2
          (skillKey (IsKeyPressed inp KeyE) 1
             (skillKey (IsKeyPressed inp KeyQ) 0 (Some (player, g))))
      else if pIdx = 1 \<and> coopMode g then
        skillKey (IsKeyPressed inp KeyKp3 \<or> IsKeyPressed inp KeyThree) 2
          (skillKey (IsKeyPressed inp KeyKp2 \<or> IsKeyPressed inp KeyTwo) 1
             (skillKey (IsKeyPressed inp KeyKp1 \<or> IsKeyPressed inp KeyOne) 0 (Some (player, g))))
      else Some (player, g))"

text \<open>
  The body of the player loop. \<^verbatim>\<open>player := &g.players[pIdx]\<close> is read at the start
  and stored back at the end: nothing in between reads or writes \<^verbatim>\<open>g.players\<close>
  but through this pointer.
\<close>

definition playerStep :: "real \<Rightarrow> Input \<Rightarrow> nat \<Rightarrow> Game \<Rightarrow> Game option" where
  "playerStep dt inp pIdx g =
     (let player0 = players g ! pIdx;
          player1 = player0\<lparr>skills := map (coolDown dt) (skills player0)\<rparr>;
          (newPos, isMoving', player2, g2) =
            (if pIdx = 0 then controlsP1 dt inp player1 g
             else if pIdx = 1 \<and> coopMode g then controlsP2 dt inp player1 g
             else (Player.position player1, False, player1, g))
      in case skillKeys inp pIdx player2 g2 of
           None \<Rightarrow> None
         | Some (player3, g3) \<Rightarrow>
             (let player4 = (if \<not> CheckObstacleCollision g3 newPos 0.9
                             then player3\<lparr>Player.position := newPos\<rparr> else player3);
                  player5 = clampPlayerToStageBounds g3 player4 0.9;
                  player6 = player5\<lparr>isMoving := isMoving'\<rparr>
              in Some (g3\<lparr>players := (players g3)[pIdx := player6]\<rparr>)))"

definition bulletStep :: "real \<Rightarrow> nat \<Rightarrow> Game \<Rightarrow> Game" where
  "bulletStep dt i g =
     (let b = bullets g ! i in
      if Bullet.active b then
        (let newPos = \<lparr>X = X (Bullet.position b) + X (Bullet.velocity b) * dt,
                       Y = Y (Bullet.position b),
                       Z = Z (Bullet.position b) + Z (Bullet.velocity b) * dt\<rparr>
         in if CheckObstacleCollision g newPos 0.3 then
              (let g1 = g\<lparr>bullets := (bullets g)[i := b\<lparr>Bullet.active := False\<rparr>]\<rparr>
               in CreateExplosion (Bullet.position (bullets g1 ! i)) 5 g1)
            else
              (let b1 = b\<lparr>Bullet.position := newPos\<rparr>;
                   b2 = (if \<bar>Z (Bullet.position b1)\<bar> > 40 \<or> \<bar>X (Bullet.position b1)\<bar> > 40
                         then b1\<lparr>Bullet.active := False\<rparr> else b1)
               in g\<lparr>bullets := (bullets g)[i := b2]\<rparr>))
      else g)"

definition bossSpawnCheck :: "Game \<Rightarrow> Game" where
  "bossSpawnCheck g = (if go_rem (level g) 5 = 0 \<and> \<not> bossSpawned g then SpawnBoss g else g)"

text \<open>The block under the comment \<^verbatim>\<open>// Spawn enemies\<close>.\<close>

definition spawnEnemies :: "real \<Rightarrow> Game \<Rightarrow> Game option" where
  "spawnEnemies dt g =
     (if \<not> bossActive g then
        (let g1 = g\<lparr>spawnTimer := spawnTimer g + dt\<rparr> in
         if spawnTimer g1 > spawnInterval g1 then
           (let g2 = g1\<lparr>spawnTimer := 0\<rparr>;
                activeCount = int (length (filter (\<lambda>e. Enemy.active e \<and> \<not> isBoss e) (enemies g2)))
            in if activeCount < 10 + level g2 * 2 then SpawnEnemy g2 else Some g2)
         else Some g1)
      else Some g)"

text \<open>The enemy loop: nearest player, movement, contact with players, bullet hits.\<close>

fun nearestPlayer :: "nat list \<Rightarrow> nat \<Rightarrow> Game \<Rightarrow> real \<Rightarrow> nat \<Rightarrow> nat" where
  "nearestPlayer [] i g minDist nearest = nearest"
| "nearestPlayer (pIdx # rest) i g minDist nearest =
     (let dx = X (Player.position (players g ! pIdx)) - X (Enemy.position (enemies g ! i));
          dz = Z (Player.position (players g ! pIdx)) - Z (Enemy.position (enemies g ! i));
          dist = sqrt (dx * dx + dz * dz)
      in if dist < minDist then nearestPlayer rest i g dist pIdx
         else nearestPlayer rest i g minDist nearest)"

definition moveTo :: "nat \<Rightarrow> Vector3 \<Rightarrow> Game \<Rightarrow> Game" where
  "moveTo i newPos g =
     (if \<not> CheckObstacleCollision g newPos (Enemy.size (enemies g ! i) / 2)
      then g\<lparr>enemies := (enemies g)[i := (enemies g ! i)\<lparr>Enemy.position := newPos\<rparr>]\<rparr>
      else g)"

definition moveEnemy :: "real \<Rightarrow> nat \<Rightarrow> nat \<Rightarrow> Game \<Rightarrow> Game" where
  "moveEnemy dt i np g =
     (let e = enemies g ! i;
          nearestPos = Player.position (players g ! np);
          dx = X nearestPos - X (Enemy.position e);
          dz = Z nearestPos - Z (Enemy.position e);
          dist = sqrt (dx * dx + dz * dz)
      in if isBoss e then
           (if dist > 5.0 then
              (let speed' = 6.0 + real_of_int (level g) * 0.3;
                   newPos = \<lparr>X = X (Enemy.position e) + (dx / dist) * speed' * dt,
                             Y = Y (Enemy.position e),
                             Z = Z (Enemy.position e) + (dz / dist) * speed' * dt\<rparr>
               in moveTo i newPos g)
            else
              (let angle' = gameTime g * 1.0;
                   radius = 8.0;
                   targetX = X nearestPos + cos angle' * radius;
                   targetZ = Z nearestPos + sin angle' * radius;
                   dx' = targetX - X (Enemy.position e);
                   dz' = targetZ - Z (Enemy.position e);
                   speed' = 8.0;
                   newPos = \<lparr>X = X (Enemy.position e) + dx' * speed' * dt * 0.1,
                             Y = Y (Enemy.position e),
                             Z = Z (Enemy.position e) + dz' * speed' * dt * 0.1\<rparr>
               in moveTo i newPos g))
         else
           (let e1 = (if dist > 0.1 then
                        (let speed' = sqrt (X (Enemy.velocity e) * X (Enemy.velocity e) +
                                            Z (Enemy.velocity e) * Z (Enemy.velocity e))
                         in e\<lparr>Enemy.velocity := (Enemy.velocity e)
                                 \<lparr>X := dx / dist * speed', Z := dz / dist * speed'\<rparr>\<rparr>)
                      else e);
                g1 = g\<lparr>enemies := (enemies g)[i := e1]\<rparr>;
                newPos = \<lparr>X = X (Enemy.position e1) + X (Enemy.velocity e1) * dt,
                          Y = Y (Enemy.position e1),
                          Z = Z (Enemy.position e1) + Z (Enemy.velocity e1) * dt\<rparr>
            in moveTo i newPos g1))"

text \<open>
  The body of the loop \<^verbatim>\<open>// Collision with players\<close>, for enemy \<open>i\<close> and player
  \<open>pIdx\<close>: \<open>playerDist\<close>, \<open>collisionDist\<close> and \<open>damage\<close> are the locals of the
  source.
\<close>

definition playerDist :: "nat \<Rightarrow> nat \<Rightarrow> Game \<Rightarrow> real" where
  "playerDist i pIdx g =
     (let dx = X (Player.position (players g ! pIdx)) - X (Enemy.position (enemies g ! i));
          dz = Z (Player.position (players g ! pIdx)) - Z (Enemy.position (enemies g ! i))
      in sqrt (dx * dx + dz * dz))"

definition collisionDist :: "Enemy \<Rightarrow> real" where
  "collisionDist e = (if isBoss e then 3.0 else 1.5)"

definition contactDamage :: "Enemy \<Rightarrow> int" where
  "contactDamage e = (if isBoss e then 30 else 20)"

definition contactPlayer :: "nat \<Rightarrow> nat \<Rightarrow> Game \<Rightarrow> Game" where
  "contactPlayer i pIdx g =
     (let player = players g ! pIdx;
          e = enemies g ! i;
          dist = playerDist i pIdx g
      in if dist < collisionDist e then
           (let player1 = player\<lparr>Player.health := Player.health player - contactDamage e\<rparr>;
                g1 = g\<lparr>players := (players g)[pIdx := player1]\<rparr>;
                g2 = CreateExplosion (Player.position player1) 10 g1;
                g3 = (if dist > 0 then
                        (let pushDist = 3.0;
                             e1 = e\<lparr>Enemy.position := (Enemy.position e)
                                    \<lparr>X := X (Enemy.position e) +
                                          (X (Enemy.position e) - X (Player.position player1)) / dist * pushDist\<rparr>\<rparr>;
                             e2 = e1\<lparr>Enemy.position := (Enemy.position e1)
                                    \<lparr>Z := Z (Enemy.position e1) +
                                          (Z (Enemy.position e1) - Z (Player.position player1)) / dist * pushDist\<rparr>\<rparr>
                         in g2\<lparr>enemies := (enemies g2)[i := e2]\<rparr>)
                      else g2)
            in if Player.health player1 \<le> 0 then
                 (let g4 = g3\<lparr>state := StateGameOver\<rparr>
                  in if score g4 > highScore g4 then g4\<lparr>highScore := score g4\<rparr> else g4)
               else g3)
         else g)"

text \<open>The body of the loop \<^verbatim>\<open>// Collision with bullets\<close>, for enemy \<open>i\<close> and bullet \<open>j\<close>.\<close>

definition bulletHit :: "nat \<Rightarrow> nat \<Rightarrow> Game \<Rightarrow> Game option" where
  "bulletHit i j g =
     (if Bullet.active (bullets g ! j) then
        (let dx = X (Bullet.position (bullets g ! j)) - X (Enemy.position (enemies g ! i));
             dz = Z (Bullet.position (bullets g ! j)) - Z (Enemy.position (enemies g ! i));
             dist = sqrt (dx * dx + dz * dz)
         in if dist < Enemy.size (enemies g ! i) then
              (let g1 = g\<lparr>enemies := (enemies g)
                          [i := (enemies g ! i)
                             \<lparr>Enemy.health := Enemy.health (enemies g ! i) - Bullet.damage (bullets g ! j)\<rparr>]\<rparr>;
                   g2 = g1\<lparr>bullets := (bullets g1)[j := (bullets g1 ! j)\<lparr>Bullet.active := False\<rparr>]\<rparr>;
                   g3 = CreateExplosion (Enemy.position (enemies g2 ! i)) 5 g2
               in if Enemy.health (enemies g3 ! i) \<le> 0 then KillEnemy (int i) g3 else Some g3)
            else Some g)
      else Some g)"

definition enemyStep :: "real \<Rightarrow> nat \<Rightarrow> Game \<Rightarrow> Game option" where
  "enemyStep dt i g =
     (if \<not> Enemy.active (enemies g ! i) then Some g
      else if players g = [] then None
      else
        (let np = nearestPlayer [0..<length (players g)] i g 999999.0 0;
             g1 = moveEnemy dt i np g;
             g2 = fold (contactPlayer i) [0..<length (players g1)] g1
         in forEachM (bulletHit i) [0..<length (bullets g2)] g2))"

definition particleStep :: "real \<Rightarrow> Particle \<Rightarrow> Particle" where
  "particleStep dt p =
     (if Particle.active p then
        (let p1 = p\<lparr>Particle.position :=
                     \<lparr>X = X (Particle.position p) + X (Particle.velocity p) * dt,
                      Y = Y (Particle.position p) + Y (Particle.velocity p) * dt,
                      Z = Z (Particle.position p) + Z (Particle.velocity p) * dt\<rparr>\<rparr>;
             p2 = p1\<lparr>Particle.velocity :=
                      (Particle.velocity p1)\<lparr>Y := Y (Particle.velocity p1) - 20 * dt\<rparr>\<rparr>;
             p3 = p2\<lparr>lifetime := lifetime p2 - dt\<rparr>
         in if lifetime p3 \<le> 0 then p3\<lparr>Particle.active := False\<rparr> else p3)
      else p)"

text \<open>A pickup: the first player within 2 units takes it (\<^verbatim>\<open>break\<close>).\<close>

definition applyPowerUp :: "int \<Rightarrow> Player \<Rightarrow> Player" where
  "applyPowerUp t player =
     (if t = 0 then
        player\<lparr>Player.health := min (Player.health player + 30) (PlayerStats.maxHealth (stats player))\<rparr>
      else if t = 1 then player\<lparr>stats := (stats player)\<lparr>speed := min (speed (stats player) + 2) 20\<rparr>\<rparr>
      else if t = 2 then
        player\<lparr>stats := (stats player)\<lparr>fireRate := max (fireRate (stats player) - 0.02) 0.05\<rparr>\<rparr>
      else player)"

fun pickup :: "nat \<Rightarrow> nat list \<Rightarrow> Game \<Rightarrow> Game" where
  "pickup i [] g = g"
| "pickup i (pIdx # rest) g =
     (let player = players g ! pIdx;
          dx = X (Player.position player) - X (PowerUp.position (powerUps g ! i));
          dz = Z (Player.position player) - Z (PowerUp.position (powerUps g ! i));
          dist = sqrt (dx * dx + dz * dz)
      in if dist < 2.0 then
           (let g1 = g\<lparr>powerUps := (powerUps g)[i := (powerUps g ! i)\<lparr>PowerUp.active := False\<rparr>]\<rparr>;
                g2 = g1\<lparr>players := (players g1)[pIdx := applyPowerUp (pType (powerUps g1 ! i)) player]\<rparr>
            in CreateExplosion (PowerUp.position (powerUps g2 ! i)) 8 g2)
         else pickup i rest g)"

definition powerUpStep :: "real \<Rightarrow> nat \<Rightarrow> Game \<Rightarrow> Game" where
  "powerUpStep dt i g =
     (if PowerUp.active (powerUps g ! i) then
        (let g1 = g\<lparr>powerUps := (powerUps g)
                      [i := (powerUps g ! i)\<lparr>rotation := rotation (powerUps g ! i) + 90 * dt\<rparr>]\<rparr>
         in pickup i [0..<length (players g1)] g1)
      else g)"

text \<open>
  \<^verbatim>\<open>Update\<close> from the comment \<^verbatim>\<open>// Playing state\<close> on: what a call does when
  \<^verbatim>\<open>g.state\<close> is \<^verbatim>\<open>StatePlaying\<close>. The camera update at the end writes renderer
  fields only.
\<close>

definition UpdatePlaying :: "real \<Rightarrow> Input \<Rightarrow> Game \<Rightarrow> Game option" where
  "UpdatePlaying dt inp g =
     (if IsKeyPressed inp KeyP then Some (g\<lparr>state := StatePaused\<rparr>)
      else
        (let g1 = g\<lparr>gameTime := gameTime g + dt\<rparr> in
         case forEachM (playerStep dt inp) [0..<length (players g1)] g1 of
           None \<Rightarrow> None
         | Some g2 \<Rightarrow>
             (let g3 = fold (bulletStep dt) [0..<length (bullets g2)] g2;
                  g4 = bossSpawnCheck g3
              in case spawnEnemies dt g4 of
                   None \<Rightarrow> None
                 | Some g5 \<Rightarrow>
                     (case forEachM (enemyStep dt) [0..<length (enemies g5)] g5 of
                        None \<Rightarrow> None
                      | Some g6 \<Rightarrow>
                          (let g7 = g6\<lparr>particles := map (particleStep dt) (particles g6)\<rparr>
                           in Some (fold (powerUpStep dt) [0..<length (powerUps g7)] g7))))))"

section \<open>Shared lemmas\<close>

subsection \<open>Arithmetic, frames and totality of the helpers\<close>

lemma go_quo_nonneg: "0 \<le> a \<Longrightarrow> 0 < b \<Longrightarrow> go_quo a b = a div b"
  by (cases "a = 0") (simp_all add: go_quo_def)

lemma go_rem_nonneg: "0 \<le> a \<Longrightarrow> 0 < b \<Longrightarrow> go_rem a b = a mod b"
  by (simp add: go_rem_def go_quo_nonneg minus_mult_div_eq_mod)

lemma go_rem_eq_0_iff: "go_rem a b = 0 \<longleftrightarrow> b dvd a" if "0 < b"
proof (cases "0 \<le> a")
  case True
  then show ?thesis using that by (simp add: go_rem_nonneg mod_eq_0_iff_dvd)
next
  case False
  then have "go_quo a b = - ((- a) div b)" using that by (simp add: go_quo_def)
  then have "go_rem a b = - ((- a) mod b)"
    by (simp add: go_rem_def algebra_simps minus_mult_div_eq_mod[symmetric])
  then show ?thesis by (simp add: mod_eq_0_iff_dvd)
qed

lemma spawnParticle_frame: "\<exists>ps r. spawnParticle pos g = g\<lparr>particles := ps, rng := r\<rparr>"
proof -
  have "spawnParticle pos g =
        g\<lparr>particles := particles (spawnParticle pos g), rng := rng (spawnParticle pos g)\<rparr>"
    by (simp add: spawnParticle_def randFloat64_def randFloat32_def Let_def split: option.splits)
  then show ?thesis by blast
qed

lemma CreateExplosion_loop_frame:
  "\<exists>ps r. CreateExplosion_loop n pos g = g\<lparr>particles := ps, rng := r\<rparr>"
proof (induction n arbitrary: g)
  case 0
  have "CreateExplosion_loop 0 pos g = g\<lparr>particles := particles g, rng := rng g\<rparr>" by simp
  then show ?case by blast
next
  case (Suc n)
  obtain ps r where 1: "spawnParticle pos g = g\<lparr>particles := ps, rng := r\<rparr>"
    using spawnParticle_frame by blast
  obtain ps' r' where 2: "CreateExplosion_loop n pos (g\<lparr>particles := ps, rng := r\<rparr>)
       = g\<lparr>particles := ps, rng := r\<rparr>\<lparr>particles := ps', rng := r'\<rparr>"
    using Suc.IH by blast
  have "CreateExplosion_loop (Suc n) pos g = g\<lparr>particles := ps', rng := r'\<rparr>"
    by (simp add: 1 2)
  then show ?case by blast
qed

lemma CreateExplosion_frame: "\<exists>ps r. CreateExplosion pos n g = g\<lparr>particles := ps, rng := r\<rparr>"
  unfolding CreateExplosion_def by (rule CreateExplosion_loop_frame)

lemma SpawnPowerUp_frame: "\<exists>pu r. SpawnPowerUp pos g = g\<lparr>powerUps := pu, rng := r\<rparr>"
proof -
  have "SpawnPowerUp pos g = g\<lparr>powerUps := powerUps (SpawnPowerUp pos g), rng := rng (SpawnPowerUp pos g)\<rparr>"
    by (simp add: SpawnPowerUp_def randFloat32_def randIntn_def Let_def split: option.splits)
  then show ?thesis by blast
qed

lemma store_length: "store xs i v = Some ys \<Longrightarrow> length ys = length xs"
  by (auto simp: store_def split: if_splits)

lemma store_Some: "i < length xs \<Longrightarrow> store xs i v = Some (xs[i := v])"
  by (simp add: store_def)

lemma GenerateMaze_loop1_length:
  "GenerateMaze_loop1 i k obs = Some (k', obs') \<Longrightarrow> length obs' = length obs"
proof (induction i k obs rule: GenerateMaze_loop1.induct)
  case (1 i obsIndex obs)
  then show ?case
    by (subst (asm) (2) GenerateMaze_loop1.simps)
       (auto split: if_splits option.splits dest: store_length)
qed

lemma GenerateMaze_loop2_length:
  "GenerateMaze_loop2 i k obs = Some (k', obs') \<Longrightarrow> length obs' = length obs"
proof (induction i k obs rule: GenerateMaze_loop2.induct)
  case (1 i obsIndex obs)
  then show ?case
    by (subst (asm) (2) GenerateMaze_loop2.simps)
       (auto split: if_splits option.splits dest: store_length)
qed

lemma GenerateMaze_frame:
  assumes "GenerateMaze g = Some g'"
  shows "\<exists>obs. g' = g\<lparr>obstacles := obs\<rparr> \<and> length obs = length (obstacles g)"
proof -
  from assms obtain k1 obs1 k2 obs2 where
    1: "GenerateMaze_loop1 (-20) 0 (obstacles g) = Some (k1, obs1)" and
    2: "GenerateMaze_loop2 (-15) k1 obs1 = Some (k2, obs2)" and
    3: "g' = g\<lparr>obstacles := obs2\<rparr>"
    by (auto simp: GenerateMaze_def split: option.splits)
  show ?thesis
    using GenerateMaze_loop1_length[OF 1] GenerateMaze_loop2_length[OF 2] 3 by auto
qed

lemma hazardAt_frame:
  assumes "hazardAt k g = Some g'"
  shows "\<exists>obs r. g' = g\<lparr>obstacles := obs, rng := r\<rparr> \<and> length obs = length (obstacles g)"
proof -
  from assms obtain obs where "g' = g\<lparr>rng := stl (stl (rng g)), obstacles := obs\<rparr>"
    "length obs = length (obstacles g)"
    by (auto simp: hazardAt_def randFloat64_def Let_def dest: store_length)
  then have "g' = g\<lparr>obstacles := obs, rng := stl (stl (rng g))\<rparr> \<and> length obs = length (obstacles g)"
    by simp
  then show ?thesis by blast
qed

lemma GenerateHazards_loop_frame:
  "GenerateHazards_loop i k g = Some g' \<Longrightarrow>
   \<exists>obs r. g' = g\<lparr>obstacles := obs, rng := r\<rparr> \<and> length obs = length (obstacles g)"
proof (induction i k g rule: GenerateHazards_loop.induct)
  case (1 i obsIndex g)
  show ?case
  proof (cases "i < 10 \<and> obsIndex < maxObstacles")
    case False
    with "1.prems" have "g' = g\<lparr>obstacles := obstacles g, rng := rng g\<rparr>"
      by (simp add: GenerateHazards_loop.simps)
    then show ?thesis by blast
  next
    case True
    from "1.prems" True obtain g1 where
      st: "hazardAt obsIndex g = Some g1"
      and rec: "GenerateHazards_loop (i + 1) (obsIndex + 1) g1 = Some g'"
      by (subst (asm) GenerateHazards_loop.simps) (auto split: option.splits)
    from hazardAt_frame[OF st] obtain obs1 r1 where
      g1: "g1 = g\<lparr>obstacles := obs1, rng := r1\<rparr>" "length obs1 = length (obstacles g)" by blast
    from "1.IH"[OF True st rec] obtain obs r where
      "g' = g1\<lparr>obstacles := obs, rng := r\<rparr>" "length obs = length (obstacles g1)" by blast
    then have "g' = g\<lparr>obstacles := obs, rng := r\<rparr> \<and> length obs = length (obstacles g)"
      using g1 by simp
    then show ?thesis by blast
  qed
qed

lemma GenerateArena_loop_length:
  "GenerateArena_loop ws k obs = Some obs' \<Longrightarrow> length obs' = length obs"
  by (induction ws k obs rule: GenerateArena_loop.induct)
     (auto split: if_splits option.splits dest: store_length)

lemma GenerateStage_frame:
  assumes "GenerateStage g = Some g'"
  shows "\<exists>obs r. g' = g\<lparr>obstacles := obs, currentStage := archetype (level g), rng := r\<rparr>
           \<and> length obs = length (obstacles g)"
proof -
  let ?g2 = "g\<lparr>obstacles := map (\<lambda>ob. ob\<lparr>Obstacle.active := False\<rparr>) (obstacles g),
               currentStage := archetype (level g)\<rparr>"
  consider (maze) "GenerateMaze ?g2 = Some g'" | (haz) "GenerateHazards ?g2 = Some g'"
    | (arena) "GenerateArena ?g2 = Some g'" | (basic) "g' = ?g2"
    using assms by (auto simp: GenerateStage_def Let_def archetype_def split: if_splits)
  then show ?thesis
  proof cases
    case maze
    from GenerateMaze_frame[OF this] obtain obs where
      "g' = ?g2\<lparr>obstacles := obs\<rparr>" "length obs = length (obstacles ?g2)" by blast
    then have "g' = g\<lparr>obstacles := obs, currentStage := archetype (level g), rng := rng g\<rparr>
       \<and> length obs = length (obstacles g)" by simp
    then show ?thesis by blast
  next
    case haz
    from GenerateHazards_loop_frame[OF this[unfolded GenerateHazards_def]] obtain obs r where
      "g' = ?g2\<lparr>obstacles := obs, rng := r\<rparr>" "length obs = length (obstacles ?g2)" by blast
    then have "g' = g\<lparr>obstacles := obs, currentStage := archetype (level g), rng := r\<rparr>
       \<and> length obs = length (obstacles g)" by simp
    then show ?thesis by blast
  next
    case arena
    then obtain obs where "g' = ?g2\<lparr>obstacles := obs\<rparr>" "length obs = length (obstacles ?g2)"
      by (auto simp: GenerateArena_def dest: GenerateArena_loop_length)
    then have "g' = g\<lparr>obstacles := obs, currentStage := archetype (level g), rng := rng g\<rparr>
       \<and> length obs = length (obstacles g)" by simp
    then show ?thesis by blast
  next
    case basic
    then have "g' = g\<lparr>obstacles := map (\<lambda>ob. ob\<lparr>Obstacle.active := False\<rparr>) (obstacles g),
         currentStage := archetype (level g), rng := rng g\<rparr>
       \<and> length (map (\<lambda>ob. ob\<lparr>Obstacle.active := False\<rparr>) (obstacles g)) = length (obstacles g)" by simp
    then show ?thesis by blast
  qed
qed


lemma GenerateMaze_total:
  assumes "9 \<le> length (obstacles g)"
  shows "\<exists>g'. GenerateMaze g = Some g'"
  using assms
  by (simp add: GenerateMaze_def GenerateMaze_loop1.simps GenerateMaze_loop2.simps
      store_def maxObstacles_def del: length_greater_0_conv)

lemma hazardAt_total:
  assumes "k < length (obstacles g)"
  shows "\<exists>g'. hazardAt k g = Some g'"
  using assms by (simp add: hazardAt_def randFloat64_def Let_def store_def)

lemma GenerateHazards_loop_total:
  "k + nat (10 - i) \<le> length (obstacles g) \<Longrightarrow> \<exists>g'. GenerateHazards_loop i k g = Some g'"
proof (induction i k g rule: GenerateHazards_loop.induct)
  case (1 i obsIndex g)
  show ?case
  proof (cases "i < 10 \<and> obsIndex < maxObstacles")
    case False
    then show ?thesis by (subst GenerateHazards_loop.simps) auto
  next
    case True
    then have "obsIndex < length (obstacles g)" using "1.prems" by linarith
    from hazardAt_total[OF this] obtain g1 where st: "hazardAt obsIndex g = Some g1" by blast
    from hazardAt_frame[OF st] have len: "length (obstacles g1) = length (obstacles g)" by auto
    have "obsIndex + 1 + nat (10 - (i + 1)) \<le> length (obstacles g1)"
      using "1.prems" True len by linarith
    from "1.IH"[OF True st this] obtain g' where
      "GenerateHazards_loop (i + 1) (obsIndex + 1) g1 = Some g'" by blast
    then show ?thesis using True st by (subst GenerateHazards_loop.simps) simp
  qed
qed

lemma GenerateArena_total:
  assumes "4 \<le> length (obstacles g)"
  shows "\<exists>g'. GenerateArena g = Some g'"
  using assms
  by (simp add: GenerateArena_def arenaWalls_def store_def maxObstacles_def del: length_greater_0_conv)

lemma GenerateHazards_total:
  assumes "10 \<le> length (obstacles g)"
  shows "\<exists>g'. GenerateHazards g = Some g'"
  unfolding GenerateHazards_def by (rule GenerateHazards_loop_total) (use assms in simp)

lemma GenerateStage_total:
  assumes "10 \<le> length (obstacles g)"
  shows "\<exists>g'. GenerateStage g = Some g'"
  using assms
  by (auto simp: GenerateStage_def Let_def
           intro!: GenerateMaze_total GenerateHazards_total GenerateArena_total)

lemma levelChecks_spec:
  assumes "10 \<le> length (obstacles g)"
  shows "\<exists>obs cs r. levelChecks g =
            Some (g\<lparr>obstacles := obs, currentStage := cs, rng := r,
                    state := (if go_rem (level g) 3 = 1 \<and> level g > 1 then StateUpgrade else state g)\<rparr>)
          \<and> length obs = length (obstacles g)
          \<and> (if go_rem (level g) stageInterval = 1
              then GenerateStage g = Some (g\<lparr>obstacles := obs, currentStage := cs, rng := r\<rparr>)
              else obs = obstacles g \<and> cs = currentStage g \<and> r = rng g)"
proof (cases "go_rem (level g) stageInterval = 1")
  case True
  from GenerateStage_total[OF assms] obtain g1 where g1: "GenerateStage g = Some g1" by blast
  from GenerateStage_frame[OF g1] obtain obs r where
    f: "g1 = g\<lparr>obstacles := obs, currentStage := archetype (level g), rng := r\<rparr>"
       "length obs = length (obstacles g)" by blast
  have "levelChecks g =
            Some (g\<lparr>obstacles := obs, currentStage := archetype (level g), rng := r,
                    state := (if go_rem (level g) 3 = 1 \<and> level g > 1 then StateUpgrade else state g)\<rparr>)"
    using True g1 f by (simp add: levelChecks_def)
  then show ?thesis using True g1 f by auto
next
  case False
  have "levelChecks g =
            Some (g\<lparr>obstacles := obstacles g, currentStage := currentStage g, rng := rng g,
                    state := (if go_rem (level g) 3 = 1 \<and> level g > 1 then StateUpgrade else state g)\<rparr>)"
    using False by (simp add: levelChecks_def)
  then show ?thesis using False by auto
qed


lemma CreateExplosion_fields [simp]:
  "state (CreateExplosion pos n g) = state g"
  "players (CreateExplosion pos n g) = players g"
  "enemies (CreateExplosion pos n g) = enemies g"
  "bullets (CreateExplosion pos n g) = bullets g"
  "powerUps (CreateExplosion pos n g) = powerUps g"
  "obstacles (CreateExplosion pos n g) = obstacles g"
  "settings (CreateExplosion pos n g) = settings g"
  "score (CreateExplosion pos n g) = score g"
  "highScore (CreateExplosion pos n g) = highScore g"
  "level (CreateExplosion pos n g) = level g"
  "spawnTimer (CreateExplosion pos n g) = spawnTimer g"
  "spawnInterval (CreateExplosion pos n g) = spawnInterval g"
  "enemiesKilled (CreateExplosion pos n g) = enemiesKilled g"
  "gameTime (CreateExplosion pos n g) = gameTime g"
  "bossActive (CreateExplosion pos n g) = bossActive g"
  "bossSpawned (CreateExplosion pos n g) = bossSpawned g"
  "upgradeChoice (CreateExplosion pos n g) = upgradeChoice g"
  "coopMode (CreateExplosion pos n g) = coopMode g"
  "currentStage (CreateExplosion pos n g) = currentStage g"
  using CreateExplosion_frame[of pos n g] by auto

lemma SpawnPowerUp_fields [simp]:
  "state (SpawnPowerUp pos g) = state g"
  "players (SpawnPowerUp pos g) = players g"
  "enemies (SpawnPowerUp pos g) = enemies g"
  "bullets (SpawnPowerUp pos g) = bullets g"
  "particles (SpawnPowerUp pos g) = particles g"
  "obstacles (SpawnPowerUp pos g) = obstacles g"
  "settings (SpawnPowerUp pos g) = settings g"
  "score (SpawnPowerUp pos g) = score g"
  "highScore (SpawnPowerUp pos g) = highScore g"
  "level (SpawnPowerUp pos g) = level g"
  "spawnTimer (SpawnPowerUp pos g) = spawnTimer g"
  "spawnInterval (SpawnPowerUp pos g) = spawnInterval g"
  "enemiesKilled (SpawnPowerUp pos g) = enemiesKilled g"
  "gameTime (SpawnPowerUp pos g) = gameTime g"
  "bossActive (SpawnPowerUp pos g) = bossActive g"
  "bossSpawned (SpawnPowerUp pos g) = bossSpawned g"
  "upgradeChoice (SpawnPowerUp pos g) = upgradeChoice g"
  "coopMode (SpawnPowerUp pos g) = coopMode g"
  "currentStage (SpawnPowerUp pos g) = currentStage g"
  using SpawnPowerUp_frame[of pos g] by auto

lemma levelChecks_fields:
  assumes "levelChecks g = Some g'"
  shows "players g' = players g" "enemies g' = enemies g" "bullets g' = bullets g"
    "particles g' = particles g" "powerUps g' = powerUps g" "settings g' = settings g"
    "score g' = score g" "highScore g' = highScore g" "level g' = level g"
    "spawnTimer g' = spawnTimer g" "spawnInterval g' = spawnInterval g"
    "enemiesKilled g' = enemiesKilled g" "gameTime g' = gameTime g"
    "bossActive g' = bossActive g" "bossSpawned g' = bossSpawned g"
    "upgradeChoice g' = upgradeChoice g" "coopMode g' = coopMode g"
    "length (obstacles g') = length (obstacles g)"
    "state g' = (if go_rem (level g) 3 = 1 \<and> level g > 1 then StateUpgrade else state g)"
    "go_rem (level g) stageInterval \<noteq> 1 \<Longrightarrow> obstacles g' = obstacles g"
    "go_rem (level g) stageInterval \<noteq> 1 \<Longrightarrow> currentStage g' = currentStage g"
    "go_rem (level g) stageInterval \<noteq> 1 \<Longrightarrow> rng g' = rng g"
    "go_rem (level g) stageInterval = 1 \<Longrightarrow>
       \<exists>h'. GenerateStage g = Some h' \<and> obstacles g' = obstacles h' \<and> currentStage g' = currentStage h'"
  using assms
  by (auto simp: levelChecks_def split: option.splits if_splits dest!: GenerateStage_frame)

lemma levelChecks_total:
  "10 \<le> length (obstacles g) \<Longrightarrow> \<exists>g'. levelChecks g = Some g'"
  using levelChecks_spec[of g] by blast

lemma levelChecks_not_None:
  "10 \<le> length (obstacles g) \<Longrightarrow> levelChecks g \<noteq> None"
  using levelChecks_total[of g] by auto

lemma KillEnemy_total:
  assumes "0 \<le> index" "index < int (length (enemies g))" "10 \<le> length (obstacles g)"
  shows "\<exists>g'. KillEnemy index g = Some g'"
  using assms
  by (auto simp: KillEnemy_def Let_def levelChecks_not_None levelChecks_fields(18)
           intro!: levelChecks_total split: option.splits)

lemma KillEnemy_Some_index:
  "KillEnemy index g = Some g' \<Longrightarrow> 0 \<le> index \<and> index < int (length (enemies g))"
  by (auto simp: KillEnemy_def split: if_splits)

lemma KillEnemy_frame:
  assumes "KillEnemy index g = Some g'"
  shows "players g' = players g" "bullets g' = bullets g" "settings g' = settings g"
    "highScore g' = highScore g" "spawnTimer g' = spawnTimer g" "gameTime g' = gameTime g"
    "upgradeChoice g' = upgradeChoice g" "coopMode g' = coopMode g"
    "length (obstacles g') = length (obstacles g)"
    "enemies g' = (enemies g)[nat index := (enemies g ! nat index)\<lparr>Enemy.active := False\<rparr>]"
    "enemiesKilled g' = enemiesKilled g + 1"
  using assms
  by (auto simp: KillEnemy_def Let_def levelChecks_fields
           split: option.splits if_splits)

lemma KillEnemy_boss:
  assumes "KillEnemy index g = Some g'" "isBoss (enemies g ! nat index)"
  shows "score g' = score g + 500" "\<not> bossActive g'" "level g' = level g + 1"
    "\<not> bossSpawned g'" "spawnInterval g' = spawnInterval g"
    "state g' = (if go_rem (level g + 1) 3 = 1 \<and> level g + 1 > 1 then StateUpgrade else state g)"
    "go_rem (level g + 1) stageInterval \<noteq> 1 \<Longrightarrow>
       obstacles g' = obstacles g \<and> currentStage g' = currentStage g"
    "go_rem (level g + 1) stageInterval = 1 \<Longrightarrow>
       \<exists>h h'. obstacles h = obstacles g \<and> level h = level g + 1 \<and> GenerateStage h = Some h' \<and>
              obstacles g' = obstacles h' \<and> currentStage g' = currentStage h'"
proof -
  let ?i = "nat index"
  from KillEnemy_Some_index[OF assms(1)] have idx: "?i < length (enemies g)" by (auto simp: nat_less_iff)
  define h where "h = (CreateExplosion (Enemy.position (enemies g ! ?i)) 50
         (g\<lparr>enemies := (enemies g)[?i := (enemies g ! ?i)\<lparr>Enemy.active := False\<rparr>],
            score := score g + 500, bossActive := False\<rparr>))
        \<lparr>level := level g + 1, bossSpawned := False\<rparr>"
  from assms idx obtain g7 where g7: "levelChecks h = Some g7"
    and g': "g' = SpawnPowerUp (Enemy.position (enemies g ! ?i))
                   (CreateExplosion (Enemy.position (enemies g ! ?i)) 15
                      (g7\<lparr>enemiesKilled := enemiesKilled g7 + 1\<rparr>))"
    by (auto simp: KillEnemy_def Let_def h_def split: option.splits if_splits)
  have hf: "score h = score g + 500" "\<not> bossActive h" "level h = level g + 1" "\<not> bossSpawned h"
    "spawnInterval h = spawnInterval g" "state h = state g" "obstacles h = obstacles g"
    "currentStage h = currentStage g"
    by (simp_all add: h_def)
  note lf = levelChecks_fields[OF g7]
  show "score g' = score g + 500" "\<not> bossActive g'" "level g' = level g + 1"
    "\<not> bossSpawned g'" "spawnInterval g' = spawnInterval g"
    "state g' = (if go_rem (level g + 1) 3 = 1 \<and> level g + 1 > 1 then StateUpgrade else state g)"
    by (simp_all add: g' lf hf)
  show "go_rem (level g + 1) stageInterval \<noteq> 1 \<Longrightarrow>
       obstacles g' = obstacles g \<and> currentStage g' = currentStage g"
    using lf(20,21) by (simp add: g' hf)
  show "go_rem (level g + 1) stageInterval = 1 \<Longrightarrow>
       \<exists>h h'. obstacles h = obstacles g \<and> level h = level g + 1 \<and> GenerateStage h = Some h' \<and>
              obstacles g' = obstacles h' \<and> currentStage g' = currentStage h'"
    using lf(23) hf(3,7) by (auto simp: g')
qed

definition levelUpDue :: "Game \<Rightarrow> bool" where
  "levelUpDue g \<longleftrightarrow> go_rem (enemiesKilled g + 1) 20 = 0 \<and> go_rem (level g) 10 \<noteq> 0"

lemma KillEnemy_nonboss:
  assumes "KillEnemy index g = Some g'" "\<not> isBoss (enemies g ! nat index)"
  shows "score g' = score g + 10 * level g" "bossActive g' = bossActive g"
    "bossSpawned g' = bossSpawned g"
    "level g' = (if levelUpDue g then level g + 1 else level g)"
    "spawnInterval g' = (if levelUpDue g
                         then max 0.5 (1.5 - real_of_int (level g + 1) * 0.05)
                         else spawnInterval g)"
    "state g' = (if levelUpDue g \<and> go_rem (level g + 1) 3 = 1 \<and> level g + 1 > 1
                 then StateUpgrade else state g)"
    "\<not> (levelUpDue g \<and> go_rem (level g + 1) stageInterval = 1) \<Longrightarrow>
       obstacles g' = obstacles g \<and> currentStage g' = currentStage g"
    "levelUpDue g \<and> go_rem (level g + 1) stageInterval = 1 \<Longrightarrow>
       \<exists>h h'. obstacles h = obstacles g \<and> level h = level g + 1 \<and> GenerateStage h = Some h' \<and>
              obstacles g' = obstacles h' \<and> currentStage g' = currentStage h'"
proof -
  let ?i = "nat index"
  from KillEnemy_Some_index[OF assms(1)] have idx: "?i < length (enemies g)" by (auto simp: nat_less_iff)
  define h where "h = SpawnPowerUp (Enemy.position (enemies g ! ?i))
         (CreateExplosion (Enemy.position (enemies g ! ?i)) 15
            (g\<lparr>enemies := (enemies g)[?i := (enemies g ! ?i)\<lparr>Enemy.active := False\<rparr>],
               score := score g + 10 * level g,
               enemiesKilled := enemiesKilled g + 1\<rparr>))"
  define h2 where "h2 = h\<lparr>level := level g + 1,
                          spawnInterval := max 0.5 (1.5 - real_of_int (level g + 1) * 0.05)\<rparr>"
  have hf: "score h = score g + 10 * level g" "bossActive h = bossActive g"
    "bossSpawned h = bossSpawned g" "level h = level g" "spawnInterval h = spawnInterval g"
    "state h = state g" "obstacles h = obstacles g" "currentStage h = currentStage g"
    "enemiesKilled h = enemiesKilled g + 1"
    by (simp_all add: h_def)
  from assms idx have r: "(if levelUpDue g then levelChecks h2 else Some h) = Some g'"
    by (auto simp: KillEnemy_def Let_def h_def h2_def levelUpDue_def split: if_splits)
  have "score g' = score g + 10 * level g \<and> bossActive g' = bossActive g \<and>
    bossSpawned g' = bossSpawned g \<and>
    level g' = (if levelUpDue g then level g + 1 else level g) \<and>
    spawnInterval g' = (if levelUpDue g
                         then max 0.5 (1.5 - real_of_int (level g + 1) * 0.05)
                         else spawnInterval g) \<and>
    state g' = (if levelUpDue g \<and> go_rem (level g + 1) 3 = 1 \<and> level g + 1 > 1
                 then StateUpgrade else state g) \<and>
    (\<not> (levelUpDue g \<and> go_rem (level g + 1) stageInterval = 1) \<longrightarrow>
       obstacles g' = obstacles g \<and> currentStage g' = currentStage g)"
  proof (cases "levelUpDue g")
    case True
    with r have lc: "levelChecks h2 = Some g'" by simp
    note lf = levelChecks_fields[OF lc]
    have h2f: "score h2 = score g + 10 * level g" "bossActive h2 = bossActive g"
      "bossSpawned h2 = bossSpawned g" "level h2 = level g + 1"
      "spawnInterval h2 = max 0.5 (1.5 - real_of_int (level g + 1) * 0.05)"
      "state h2 = state g" "obstacles h2 = obstacles g" "currentStage h2 = currentStage g"
      by (simp_all add: h2_def hf)
    show ?thesis using True lf(20,21) by (simp add: lf(1-19) h2f)
  next
    case False
    with r have "g' = h" by simp
    then show ?thesis using False by (simp add: hf)
  qed
  then show "score g' = score g + 10 * level g" "bossActive g' = bossActive g"
    "bossSpawned g' = bossSpawned g"
    "level g' = (if levelUpDue g then level g + 1 else level g)"
    "spawnInterval g' = (if levelUpDue g
                         then max 0.5 (1.5 - real_of_int (level g + 1) * 0.05)
                         else spawnInterval g)"
    "state g' = (if levelUpDue g \<and> go_rem (level g + 1) 3 = 1 \<and> level g + 1 > 1
                 then StateUpgrade else state g)"
    "\<not> (levelUpDue g \<and> go_rem (level g + 1) stageInterval = 1) \<Longrightarrow>
       obstacles g' = obstacles g \<and> currentStage g' = currentStage g"
    by blast+
  show "levelUpDue g \<and> go_rem (level g + 1) stageInterval = 1 \<Longrightarrow>
       \<exists>h h'. obstacles h = obstacles g \<and> level h = level g + 1 \<and> GenerateStage h = Some h' \<and>
              obstacles g' = obstacles h' \<and> currentStage g' = currentStage h'"
  proof -
    assume a: "levelUpDue g \<and> go_rem (level g + 1) stageInterval = 1"
    with r have lc: "levelChecks h2 = Some g'" by simp
    have "go_rem (level h2) stageInterval = 1" using a by (simp add: h2_def)
    from levelChecks_fields(23)[OF lc this] obtain h' where
      "GenerateStage h2 = Some h'" "obstacles g' = obstacles h'" "currentStage g' = currentStage h'"
      by blast
    moreover have "obstacles h2 = obstacles g" "level h2 = level g + 1" by (simp_all add: h2_def hf)
    ultimately show ?thesis by blast
  qed
qed

subsection \<open>CheckObstacleCollision and SpawnEnemy\<close>

lemma CheckObstacleCollision_loop_iff:
  "CheckObstacleCollision_loop obs pos radius \<longleftrightarrow>
     list_ex (\<lambda>ob. Obstacle.active ob \<and> aabbHit pos radius ob) obs"
  by (induction obs) auto

lemma CheckObstacleCollision_loop_obsType:
  "CheckObstacleCollision_loop (map (\<lambda>ob. ob\<lparr>obsType := k ob\<rparr>) obs) pos radius =
   CheckObstacleCollision_loop obs pos radius"
  by (induction obs) (auto simp: aabbHit_def)

lemma CheckObstacleCollision_loop_append:
  "CheckObstacleCollision_loop (pre @ rest) pos radius \<longleftrightarrow>
   CheckObstacleCollision_loop pre pos radius \<or> CheckObstacleCollision_loop rest pos radius"
  by (induction pre) auto

lemma spawnCandidate_frame:
  "snd (spawnCandidate g) = g\<lparr>rng := stl (stl (rng g))\<rparr>"
  by (simp add: spawnCandidate_def randFloat64_def Let_def)

lemma CheckObstacleCollision_rng [simp]:
  "CheckObstacleCollision (g\<lparr>rng := r\<rparr>) pos radius = CheckObstacleCollision g pos radius"
  by (simp add: CheckObstacleCollision_def)

lemma SpawnEnemy_loop_skip:
  assumes "\<not> Enemy.active (enemies g ! i)" "CheckObstacleCollision g (fst (spawnCandidate g)) 1"
  shows "SpawnEnemy_loop (i # rest) g = SpawnEnemy_loop rest (snd (spawnCandidate g))"
  using assms by (simp add: split_def spawnCandidate_frame)

lemma SpawnEnemy_loop_place:
  assumes "\<not> Enemy.active (enemies g ! i)" "\<not> CheckObstacleCollision g (fst (spawnCandidate g)) 1"
  shows "SpawnEnemy_loop (i # rest) g = placeEnemy i (fst (spawnCandidate g)) (snd (spawnCandidate g))"
  using assms by (simp add: split_def spawnCandidate_frame)

lemma SpawnEnemy_loop_all_active:
  "list_all (\<lambda>j. Enemy.active (enemies g ! j)) rest \<Longrightarrow> SpawnEnemy_loop rest g = Some g"
  by (induction rest) auto

lemma placeEnemy_spec:
  assumes "players g \<noteq> []" "i < length (enemies g)"
  shows "\<exists>g'. placeEnemy i pos g = Some g' \<and> Enemy.active (enemies g' ! i) \<and>
              \<not> isBoss (enemies g' ! i) \<and> Enemy.position (enemies g' ! i) = pos \<and>
              length (enemies g') = length (enemies g) \<and>
              (\<forall>j. j \<noteq> i \<longrightarrow> enemies g' ! j = enemies g ! j)"
  using assms
  by (simp add: placeEnemy_def randIntn_def randFloat64_def randFloat32_def Let_def NewVector3_def)


lemma firstFree_Some:
  "firstFree act xs = Some i \<Longrightarrow> i < length xs \<and> \<not> act (xs ! i) \<and> (\<forall>j<i. act (xs ! j))"
proof (induction xs arbitrary: i)
  case Nil
  then show ?case by simp
next
  case (Cons x xs)
  show ?case
  proof (cases "act x")
    case False
    with Cons.prems show ?thesis by simp
  next
    case True
    with Cons.prems obtain k where k: "firstFree act xs = Some k" "i = Suc k" by auto
    from Cons.IH[OF k(1)] True k(2) show ?thesis by (auto simp: less_Suc_eq_0_disj)
  qed
qed

lemma firstFree_None: "firstFree act xs = None \<longleftrightarrow> list_all act xs"
  by (induction xs) auto

lemma upt_split: "m \<le> i \<Longrightarrow> i < n \<Longrightarrow> [m..<n] = [m..<i] @ i # [Suc i..<n]"
proof -
  assume a: "m \<le> i" "i < n"
  have "[m..<n] = [m..<i] @ [i..<n]" using upt_add_eq_append[of m i "n - i"] a by simp
  moreover have "[i..<n] = i # [Suc i..<n]" using a by (simp add: upt_conv_Cons)
  ultimately show ?thesis by simp
qed

lemma SpawnEnemy_loop_append_active:
  "list_all (\<lambda>j. Enemy.active (enemies g ! j)) pre \<Longrightarrow>
   SpawnEnemy_loop (pre @ rest) g = SpawnEnemy_loop rest g"
  by (induction pre) auto

lemma SpawnEnemy_from_firstFree:
  assumes "firstFree Enemy.active (enemies g) = Some i"
  shows "SpawnEnemy g = SpawnEnemy_loop (i # [Suc i..<length (enemies g)]) g"
proof -
  from firstFree_Some[OF assms] have i: "i < length (enemies g)"
    and pre: "\<forall>j<i. Enemy.active (enemies g ! j)" by auto
  have "list_all (\<lambda>j. Enemy.active (enemies g ! j)) [0..<i]"
    using pre by (simp add: list_all_iff)
  then show ?thesis
    unfolding SpawnEnemy_def upt_split[OF le0 i] by (rule SpawnEnemy_loop_append_active)
qed

lemma SpawnEnemy_loop_from_drop:
  assumes "firstFree Enemy.active (drop m (enemies g)) = Some k"
  shows "SpawnEnemy_loop [m..<length (enemies g)] g =
         SpawnEnemy_loop ((m + k) # [Suc (m + k)..<length (enemies g)]) g"
proof -
  from firstFree_Some[OF assms] have k: "m + k < length (enemies g)"
    and pre: "\<forall>j<k. Enemy.active (enemies g ! (m + j))" by auto
  have "list_all (\<lambda>j. Enemy.active (enemies g ! j)) [m..<m + k]"
  proof (unfold list_all_iff, rule ballI)
    fix j assume "j \<in> set [m..<m + k]"
    then have "j - m < k" "j = m + (j - m)" by auto
    then show "Enemy.active (enemies g ! j)" using pre by metis
  qed
  then show ?thesis
    unfolding upt_split[OF le_add1 k] by (rule SpawnEnemy_loop_append_active)
qed

lemma SpawnEnemy_loop_none_free:
  assumes "firstFree Enemy.active (drop m (enemies g)) = None"
  shows "SpawnEnemy_loop [m..<length (enemies g)] g = Some g"
proof -
  have "list_all (\<lambda>j. Enemy.active (enemies g ! j)) [m..<length (enemies g)]"
  proof (unfold list_all_iff, rule ballI)
    fix j assume "j \<in> set [m..<length (enemies g)]"
    then have j: "j - m < length (drop m (enemies g))" "j = m + (j - m)" "m \<le> length (enemies g)"
      by auto
    from assms have "\<forall>n<length (drop m (enemies g)). Enemy.active (drop m (enemies g) ! n)"
      by (simp only: firstFree_None list_all_length)
    with j(1) have "Enemy.active (drop m (enemies g) ! (j - m))" by blast
    also have "drop m (enemies g) ! (j - m) = enemies g ! (m + (j - m))"
      by (rule nth_drop) (use j in simp)
    finally show "Enemy.active (enemies g ! j)" using j(2) by simp
  qed
  then show ?thesis by (rule SpawnEnemy_loop_all_active)
qed

lemma length_skills_createPlayer: "length (skills (createPlayer pid pos)) = 3"
  by (simp add: createPlayer_def Let_def)


subsection \<open>Loops and what a tick does to the players\<close>




lemma fold_invariant:
  assumes "P s" "\<And>i s. i \<in> set ns \<Longrightarrow> P s \<Longrightarrow> P (f i s)"
  shows "P (fold f ns s)"
  using assms by (induction ns arbitrary: s) auto

lemma forEachM_invariant:
  assumes "forEachM body ns s = Some s'" "P s"
    "\<And>i s s'. i \<in> set ns \<Longrightarrow> P s \<Longrightarrow> body i s = Some s' \<Longrightarrow> P s'"
  shows "P s'"
  using assms
proof (induction ns arbitrary: s)
  case Nil
  then show ?case by simp
next
  case (Cons i ns)
  from Cons.prems(1) obtain s1 where s1: "body i s = Some s1" "forEachM body ns s1 = Some s'"
    by (auto split: option.splits)
  have "P s1" using Cons.prems(2,3) s1(1) by auto
  then show ?case using Cons.IH[OF s1(2)] Cons.prems(3) by auto
qed


lemma ShootBullet_fields [simp]:
  "Player.health (fst (ShootBullet p g)) = Player.health p"
  "stats (fst (ShootBullet p g)) = stats p"
  "skills (fst (ShootBullet p g)) = skills p"
  "players (snd (ShootBullet p g)) = players g"
  by (simp_all add: ShootBullet_def randFloat32_def Let_def split: option.splits)

lemma shootAt_fields [simp]:
  "Player.health (fst (shootAt a p g)) = Player.health p"
  "stats (fst (shootAt a p g)) = stats p"
  "skills (fst (shootAt a p g)) = skills p"
  "players (snd (shootAt a p g)) = players g"
  by (simp_all add: shootAt_def)

lemma moveInput_fields [simp]:
  "Player.health (snd (snd (moveInput inp u d l r dt p))) = Player.health p"
  "stats (snd (snd (moveInput inp u d l r dt p))) = stats p"
  "skills (snd (snd (moveInput inp u d l r dt p))) = skills p"
  by (simp_all add: moveInput_def Let_def split_def)

lemma controlsP1_fields [simp]:
  "Player.health (fst (snd (snd (controlsP1 dt inp p g)))) = Player.health p"
  "stats (fst (snd (snd (controlsP1 dt inp p g)))) = stats p"
  "skills (fst (snd (snd (controlsP1 dt inp p g)))) = skills p"
  "players (snd (snd (snd (controlsP1 dt inp p g)))) = players g"
  by (simp_all add: controlsP1_def Let_def split_def)

lemma shootIf_fields [simp]:
  "Player.health (fst (shootIf c a pg)) = Player.health (fst pg)"
  "stats (fst (shootIf c a pg)) = stats (fst pg)"
  "skills (fst (shootIf c a pg)) = skills (fst pg)"
  "players (snd (shootIf c a pg)) = players (snd pg)"
  by (simp_all add: shootIf_def)

lemma autoAim_fields [simp]:
  "Player.health (fst (autoAim inp pg)) = Player.health (fst pg)"
  "stats (fst (autoAim inp pg)) = stats (fst pg)"
  "skills (fst (autoAim inp pg)) = skills (fst pg)"
  "players (snd (autoAim inp pg)) = players (snd pg)"
  by (simp_all add: autoAim_def Let_def split: option.splits)

lemma controlsP2_fields [simp]:
  "Player.health (fst (snd (snd (controlsP2 dt inp p g)))) = Player.health p"
  "stats (fst (snd (snd (controlsP2 dt inp p g)))) = stats p"
  "skills (fst (snd (snd (controlsP2 dt inp p g)))) = skills p"
  "players (snd (snd (snd (controlsP2 dt inp p g)))) = players g"
  by (simp_all add: controlsP2_def Let_def split_def)

lemma clampPlayerToStageBounds_fields [simp]:
  "Player.health (clampPlayerToStageBounds g p m) = Player.health p"
  "stats (clampPlayerToStageBounds g p m) = stats p"
  "skills (clampPlayerToStageBounds g p m) = skills p"
  by (simp_all add: clampPlayerToStageBounds_def Let_def)

lemma explodeEnemy_players:
  "explodeEnemy p i g = Some g' \<Longrightarrow> players g' = players g"
  by (auto simp: explodeEnemy_def Let_def split: if_splits dest!: KillEnemy_frame(1))

lemma UseSkill_explosion_players:
  assumes "UseSkill_explosion p g = Some g'"
  shows "players g' = players g"
  by (rule forEachM_invariant[OF assms[unfolded UseSkill_explosion_def],
        where P = "\<lambda>h. players h = players g"])
     (auto dest: explodeEnemy_players)

lemma radialBullet_players [simp]: "players (radialBullet a p g) = players g"
  by (simp add: radialBullet_def Let_def split: option.splits)

lemma UseSkill_radial_players [simp]: "players (UseSkill_radial a p g) = players g"
proof (induction a p g rule: UseSkill_radial.induct)
  case (1 a p g)
  show ?case
  proof (cases "a < 360")
    case True
    with 1 show ?thesis by (subst UseSkill_radial.simps) simp
  next
    case False
    then show ?thesis by (subst UseSkill_radial.simps) simp
  qed
qed

lemma UseSkill_players:
  assumes "UseSkill p k g = Some (p', g')"
  shows "players g' = players g"
  using assms
  by (auto simp: UseSkill_def Let_def split: if_splits option.splits
           dest: UseSkill_explosion_players)

lemma UseSkill_stats:
  assumes "UseSkill p k g = Some (p', g')"
  shows "stats p' = stats p" "length (skills p') = length (skills p)"
  using assms
  by (auto simp: UseSkill_def Let_def split: if_splits option.splits)



text \<open>
  A property \<open>Q\<close> of a player that the tick maintains: it depends on health, stats
  and skills only, and the cooldown step, \<open>UseSkill\<close>, a loss of health and a pickup
  keep it.
\<close>

definition playerInvariant :: "real \<Rightarrow> (Player \<Rightarrow> bool) \<Rightarrow> bool" where
  "playerInvariant dt Q \<longleftrightarrow>
     (\<forall>p q. Q p \<longrightarrow> Player.health q = Player.health p \<longrightarrow> stats q = stats p \<longrightarrow>
            skills q = skills p \<longrightarrow> Q q) \<and>
     (\<forall>p. Q p \<longrightarrow> Q (p\<lparr>skills := map (coolDown dt) (skills p)\<rparr>)) \<and>
     (\<forall>p k h p' h'. Q p \<longrightarrow> UseSkill p k h = Some (p', h') \<longrightarrow> Q p') \<and>
     (\<forall>p d. Q p \<longrightarrow> 0 \<le> d \<longrightarrow> Q (p\<lparr>Player.health := Player.health p - d\<rparr>)) \<and>
     (\<forall>p t. Q p \<longrightarrow> Q (applyPowerUp t p))"

lemma playerInvariantD:
  assumes "playerInvariant dt Q"
  shows "\<And>p q. Q p \<Longrightarrow> Player.health q = Player.health p \<Longrightarrow> stats q = stats p \<Longrightarrow>
            skills q = skills p \<Longrightarrow> Q q"
    "\<And>p. Q p \<Longrightarrow> Q (p\<lparr>skills := map (coolDown dt) (skills p)\<rparr>)"
    "\<And>p k h p' h'. Q p \<Longrightarrow> UseSkill p k h = Some (p', h') \<Longrightarrow> Q p'"
    "\<And>p d. Q p \<Longrightarrow> 0 \<le> d \<Longrightarrow> Q (p\<lparr>Player.health := Player.health p - d\<rparr>)"
    "\<And>p t. Q p \<Longrightarrow> Q (applyPowerUp t p)"
  using assms unfolding playerInvariant_def by blast+

lemma list_all_update: "list_all Q xs \<Longrightarrow> Q x \<Longrightarrow> list_all Q (xs[i := x])"
  unfolding list_all_iff using set_update_subset_insert[of xs i x] by auto

lemma skillKey_Some:
  assumes "skillKey c k r = Some (p', g')"
  shows "\<exists>p g. r = Some (p, g) \<and> (if c then UseSkill p k g = Some (p', g') else p' = p \<and> g' = g)"
  using assms by (auto simp: skillKey_def split: option.splits if_splits)

lemma skillKey_inv:
  assumes "skillKey c k r = Some (p', g')" "r = Some (p, g)" "playerInvariant dt Q" "Q p"
  shows "Q p' \<and> players g' = players g"
proof -
  from skillKey_Some[OF assms(1)] assms(2)
  have "if c then UseSkill p k g = Some (p', g') else p' = p \<and> g' = g" by auto
  then show ?thesis
    using assms(4) playerInvariantD(3)[OF assms(3)] UseSkill_players
    by (auto split: if_splits)
qed

lemma skillKey3_inv:
  assumes "skillKey c3 k3 (skillKey c2 k2 (skillKey c1 k1 (Some (p, g)))) = Some (p', g')"
    "playerInvariant dt Q" "Q p"
  shows "Q p' \<and> players g' = players g"
proof -
  from skillKey_Some[OF assms(1)] obtain p2 g2 where
    2: "skillKey c2 k2 (skillKey c1 k1 (Some (p, g))) = Some (p2, g2)" by blast
  from skillKey_Some[OF 2] obtain p1 g1 where
    1: "skillKey c1 k1 (Some (p, g)) = Some (p1, g1)" by blast
  from skillKey_inv[OF 1 refl assms(2,3)] have a: "Q p1" "players g1 = players g" by auto
  from skillKey_inv[OF 2[unfolded 1] refl assms(2) a(1)] have b: "Q p2" "players g2 = players g1"
    by auto
  from skillKey_inv[OF assms(1)[unfolded 2] refl assms(2) b(1)] a b show ?thesis by auto
qed

lemma skillKeys_inv:
  assumes "skillKeys inp pIdx p g = Some (p', g')" "playerInvariant dt Q" "Q p"
  shows "Q p' \<and> players g' = players g"
proof -
  consider (a) "pIdx = 0" | (b) "pIdx \<noteq> 0" "pIdx = 1 \<and> coopMode g" | (c) "pIdx \<noteq> 0" "\<not> (pIdx = 1 \<and> coopMode g)"
    by blast
  then show ?thesis
  proof cases
    case a
    with assms(1) show ?thesis by (auto simp: skillKeys_def dest!: skillKey3_inv[OF _ assms(2,3)])
  next
    case b
    with assms(1) show ?thesis by (auto simp: skillKeys_def dest!: skillKey3_inv[OF _ assms(2,3)])
  next
    case c
    with assms(1,3) show ?thesis by (auto simp: skillKeys_def)
  qed
qed

lemma playerStep_inv:
  assumes "playerStep dt inp pIdx g = Some g'" "playerInvariant dt Q"
    "list_all Q (players g)" "pIdx < length (players g)"
  shows "list_all Q (players g') \<and> length (players g') = length (players g)"
proof -
  note D = playerInvariantD[OF assms(2)]
  let ?p0 = "players g ! pIdx"
  let ?p1 = "?p0\<lparr>skills := map (coolDown dt) (skills ?p0)\<rparr>"
  define c where "c = (if pIdx = 0 then controlsP1 dt inp ?p1 g
             else if pIdx = 1 \<and> coopMode g then controlsP2 dt inp ?p1 g
             else (Player.position ?p1, False, ?p1, g))"
  define newPos where "newPos = fst c"
  define mv where "mv = fst (snd c)"
  define p2 where "p2 = fst (snd (snd c))"
  define g2 where "g2 = snd (snd (snd c))"
  have Q0: "Q ?p0" using assms(3,4) by (simp add: list_all_length)
  have Q1: "Q ?p1" by (rule D(2)[OF Q0])
  have same2: "Player.health p2 = Player.health ?p1" "stats p2 = stats ?p1" "skills p2 = skills ?p1"
    and pl2: "players g2 = players g"
    by (simp_all add: p2_def g2_def c_def)
  have Q2: "Q p2" by (rule D(1)[OF Q1 same2])
  from assms(1) obtain p3 g3 where
    sk: "skillKeys inp pIdx p2 g2 = Some (p3, g3)" and
    g': "g' = g3\<lparr>players := (players g3)
            [pIdx := (clampPlayerToStageBounds g3
                       (if \<not> CheckObstacleCollision g3 newPos 0.9
                        then p3\<lparr>Player.position := newPos\<rparr> else p3) 0.9)
                     \<lparr>isMoving := mv\<rparr>]\<rparr>"
    unfolding playerStep_def Let_def split_def c_def[symmetric]
      newPos_def[symmetric] mv_def[symmetric] p2_def[symmetric] g2_def[symmetric]
    by (auto split: option.splits)
  from skillKeys_inv[OF sk assms(2) Q2] have Q3: "Q p3" and pl3: "players g3 = players g"
    using pl2 by auto
  let ?p6 = "(clampPlayerToStageBounds g3
                       (if \<not> CheckObstacleCollision g3 newPos 0.9
                        then p3\<lparr>Player.position := newPos\<rparr> else p3) 0.9)
                     \<lparr>isMoving := mv\<rparr>"
  have Q6: "Q ?p6" by (rule D(1)[OF Q3]) simp_all
  have "players g' = (players g)[pIdx := ?p6]" by (simp add: g' pl3)
  then show ?thesis
    using list_all_update[OF assms(3) Q6, of pIdx] by simp
qed



lemma bulletStep_players [simp]: "players (bulletStep dt i g) = players g"
  by (simp add: bulletStep_def Let_def)

lemma SpawnBoss_players [simp]: "players (SpawnBoss g) = players g"
  by (simp add: SpawnBoss_def randFloat64_def Let_def split: option.splits)

lemma bossSpawnCheck_players [simp]: "players (bossSpawnCheck g) = players g"
  by (simp add: bossSpawnCheck_def)

lemma placeEnemy_players: "placeEnemy i pos g = Some g' \<Longrightarrow> players g' = players g"
  by (auto simp: placeEnemy_def randIntn_def randFloat64_def randFloat32_def Let_def
           split: if_splits)

lemma SpawnEnemy_loop_players:
  "SpawnEnemy_loop ns g = Some g' \<Longrightarrow> players g' = players g"
proof (induction ns arbitrary: g)
  case Nil
  then show ?case by simp
next
  case (Cons i ns)
  show ?case
  proof (cases "Enemy.active (enemies g ! i)")
    case True
    with Cons show ?thesis by simp
  next
    case False
    show ?thesis
    proof (cases "CheckObstacleCollision g (fst (spawnCandidate g)) 1")
      case True
      from Cons.prems have "SpawnEnemy_loop ns (snd (spawnCandidate g)) = Some g'"
        unfolding SpawnEnemy_loop_skip[OF False True] .
      from Cons.IH[OF this] show ?thesis by (simp add: spawnCandidate_frame)
    next
      case c: False
      from Cons.prems
      have "placeEnemy i (fst (spawnCandidate g)) (snd (spawnCandidate g)) = Some g'"
        unfolding SpawnEnemy_loop_place[OF False c] .
      from placeEnemy_players[OF this] show ?thesis by (simp add: spawnCandidate_frame)
    qed
  qed
qed

lemma spawnEnemies_players: "spawnEnemies dt g = Some g' \<Longrightarrow> players g' = players g"
  by (auto simp: spawnEnemies_def SpawnEnemy_def Let_def split: if_splits
           dest!: SpawnEnemy_loop_players)

lemma moveTo_players [simp]: "players (moveTo i pos g) = players g"
  by (simp add: moveTo_def)

lemma moveEnemy_players [simp]: "players (moveEnemy dt i np g) = players g"
  by (simp add: moveEnemy_def Let_def)

lemma contactDamage_nonneg: "0 \<le> contactDamage e"
  by (simp add: contactDamage_def)

lemma contactPlayer_players:
  "players (contactPlayer i pIdx g) =
     (if playerDist i pIdx g < collisionDist (enemies g ! i)
      then (players g)[pIdx := (players g ! pIdx)
             \<lparr>Player.health := Player.health (players g ! pIdx) - contactDamage (enemies g ! i)\<rparr>]
      else players g)"
  by (simp add: contactPlayer_def Let_def)

lemma contactPlayer_inv:
  assumes "playerInvariant dt Q" "list_all Q (players g)" "pIdx < length (players g)"
  shows "list_all Q (players (contactPlayer i pIdx g)) \<and>
         length (players (contactPlayer i pIdx g)) = length (players g)"
proof -
  have "Q (players g ! pIdx)" using assms(2,3) by (simp add: list_all_length)
  from playerInvariantD(4)[OF assms(1) this contactDamage_nonneg]
  show ?thesis using assms(2) by (simp add: contactPlayer_players list_all_update)
qed

lemma bulletHit_players: "bulletHit i j g = Some g' \<Longrightarrow> players g' = players g"
  by (auto simp: bulletHit_def Let_def split: if_splits dest!: KillEnemy_frame(1))

lemma enemyStep_inv:
  assumes "enemyStep dt i g = Some g'" "playerInvariant dt Q" "list_all Q (players g)"
  shows "list_all Q (players g') \<and> length (players g') = length (players g)"
proof (cases "Enemy.active (enemies g ! i)")
  case False
  with assms(1,3) show ?thesis by (simp add: enemyStep_def)
next
  case True
  define g1 where "g1 = moveEnemy dt i (nearestPlayer [0..<length (players g)] i g 999999.0 0) g"
  define g2 where "g2 = fold (contactPlayer i) [0..<length (players g1)] g1"
  from assms(1) True have b: "forEachM (bulletHit i) [0..<length (bullets g2)] g2 = Some g'"
    by (auto simp: enemyStep_def Let_def g1_def g2_def split: if_splits)
  have p1: "players g1 = players g" by (simp add: g1_def)
  have "list_all Q (players g2) \<and> length (players g2) = length (players g)"
    unfolding g2_def
  proof (rule fold_invariant, goal_cases)
    case 1
    show ?case using assms(3) p1 by simp
  next
    case (2 pIdx h)
    then have "pIdx < length (players h)" using p1 by simp
    from contactPlayer_inv[OF assms(2) _ this, of i] 2 show ?case by simp
  qed
  moreover have "players g' = players g2"
    by (rule forEachM_invariant[OF b, where P = "\<lambda>h. players h = players g2"])
       (auto dest: bulletHit_players)
  ultimately show ?thesis by simp
qed

lemma pickup_inv:
  assumes "playerInvariant dt Q" "list_all Q (players g)"
  shows "list_all Q (players (pickup i ns g)) \<and>
         length (players (pickup i ns g)) = length (players g)"
proof (induction ns)
  case Nil
  show ?case using assms(2) by simp
next
  case (Cons pIdx ns)
  show ?case
  proof (cases "pIdx < length (players g)")
    case True
    then have "Q (players g ! pIdx)" using assms(2) by (simp add: list_all_length)
    from playerInvariantD(5)[OF assms(1) this] Cons assms(2)
    show ?thesis by (simp add: Let_def list_all_update)
  next
    case False
    then have "(players g)[pIdx := x] = players g" for x by (simp add: list_update_beyond)
    with Cons assms(2) show ?thesis by (simp add: Let_def)
  qed
qed

lemma powerUpStep_inv:
  assumes "playerInvariant dt Q" "list_all Q (players g)"
  shows "list_all Q (players (powerUpStep dt' i g)) \<and>
         length (players (powerUpStep dt' i g)) = length (players g)"
proof (cases "PowerUp.active (powerUps g ! i)")
  case False
  then show ?thesis using assms(2) by (simp add: powerUpStep_def)
next
  case True
  let ?g1 = "g\<lparr>powerUps := (powerUps g)
                      [i := (powerUps g ! i)\<lparr>rotation := rotation (powerUps g ! i) + 90 * dt'\<rparr>]\<rparr>"
  have "list_all Q (players ?g1)" using assms(2) by simp
  from pickup_inv[OF assms(1) this, of i "[0..<length (players ?g1)]"] True
  show ?thesis by (simp add: powerUpStep_def Let_def)
qed

text \<open>The tick keeps every invariant of the players.\<close>

lemma UpdatePlaying_inv:
  assumes "UpdatePlaying dt inp g = Some g'" "playerInvariant dt Q" "list_all Q (players g)"
  shows "list_all Q (players g') \<and> length (players g') = length (players g)"
proof (cases "IsKeyPressed inp KeyP")
  case True
  with assms(1,3) show ?thesis by (auto simp: UpdatePlaying_def)
next
  case False
  let ?P = "\<lambda>h. list_all Q (players h) \<and> length (players h) = length (players g)"
  define g1 where "g1 = g\<lparr>gameTime := gameTime g + dt\<rparr>"
  from assms(1) False obtain g2 g5 g6 where
    s2: "forEachM (playerStep dt inp) [0..<length (players g1)] g1 = Some g2" and
    s5: "spawnEnemies dt (bossSpawnCheck (fold (bulletStep dt) [0..<length (bullets g2)] g2)) = Some g5" and
    s6: "forEachM (enemyStep dt) [0..<length (enemies g5)] g5 = Some g6" and
    g': "g' = fold (powerUpStep dt) [0..<length (powerUps g6)]
                (g6\<lparr>particles := map (particleStep dt) (particles g6)\<rparr>)"
    by (auto simp: UpdatePlaying_def Let_def g1_def split: option.splits)
  have 1: "?P g1" using assms(3) by (simp add: g1_def)
  have 2: "?P g2"
  proof (rule forEachM_invariant[OF s2, where P = ?P], goal_cases)
    case 1
    show ?case by (rule \<open>?P g1\<close>)
  next
    case (2 pIdx h h')
    then have "pIdx < length (players h)" by (simp add: g1_def)
    from playerStep_inv[OF 2(3) assms(2) _ this] 2(2) show ?case by simp
  qed
  have "players (fold (bulletStep dt) [0..<length (bullets g2)] g2) = players g2"
    by (rule fold_invariant) simp_all
  then have 5: "?P g5" using spawnEnemies_players[OF s5] 2 by simp
  have 6: "?P g6"
  proof (rule forEachM_invariant[OF s6, where P = ?P], goal_cases)
    case 1
    show ?case by (rule 5)
  next
    case (2 i h h')
    from enemyStep_inv[OF 2(3) assms(2)] 2(2) show ?case by simp
  qed
  show ?thesis unfolding g'
  proof (rule fold_invariant, goal_cases)
    case 1
    show ?case using 6 by simp
  next
    case (2 i h)
    from powerUpStep_inv[OF assms(2), of h dt i] 2(2) show ?case by simp
  qed
qed


subsection \<open>Contact of an enemy with a player\<close>

lemma contactPlayer_fields:
  "score (contactPlayer i pIdx g) = score g"
  "state (contactPlayer i pIdx g) =
     (if playerDist i pIdx g < collisionDist (enemies g ! i) \<and>
         Player.health (players g ! pIdx) - contactDamage (enemies g ! i) \<le> 0
      then StateGameOver else state g)"
  "highScore (contactPlayer i pIdx g) =
     (if playerDist i pIdx g < collisionDist (enemies g ! i) \<and>
         Player.health (players g ! pIdx) - contactDamage (enemies g ! i) \<le> 0 \<and>
         score g > highScore g
      then score g else highScore g)"
  by (simp_all add: contactPlayer_def Let_def)




subsection \<open>Skill cooldowns\<close>

text \<open>
  The invariant of a skill slot: the cooldown is between 0 and \<open>maxCooldown\<close>, and the
  skill is ready exactly when the cooldown is 0.
\<close>

definition skillInv :: "Skill \<Rightarrow> bool" where
  "skillInv s \<longleftrightarrow> 0 \<le> cooldown s \<and> cooldown s \<le> maxCooldown s \<and> (ready s \<longleftrightarrow> cooldown s = 0)"

text \<open>
  What the code maintains is the invariant together with a positive \<open>maxCooldown\<close>
  (8, 10 and 15 for the three skills, never written after creation): without it, an
  activation would leave a skill not ready at cooldown 0.
\<close>

definition skillOk :: "Skill \<Rightarrow> bool" where
  "skillOk s \<longleftrightarrow> skillInv s \<and> 0 < maxCooldown s"

definition skillsOk :: "Player \<Rightarrow> bool" where
  "skillsOk p \<longleftrightarrow> list_all skillOk (skills p)"



lemma createPlayer_ok: "skillsOk (createPlayer pid pos)"
  by (simp add: skillsOk_def skillOk_def skillInv_def createPlayer_def Let_def)




lemma applyPowerUp_skills [simp]: "skills (applyPowerUp t p) = skills p"
  by (simp add: applyPowerUp_def)


lemma upgradePlayer_skills [simp]: "skills (upgradePlayer c p) = skills p"
  by (simp add: upgradePlayer_def Let_def)


lemma setHealth_skills [simp]: "skills (setHealth h p) = skills p"
  by (simp add: setHealth_def)

lemma ResetGame_players:
  assumes "ResetGame g = Some g'"
  shows "players g' =
      (let ps = map (\<lambda>i. resetPlayer (coopMode g) i (players g ! i)) [0..<length (players g)]
       in if difficulty (settings g) = 0 then map (setHealth 150) ps
          else if difficulty (settings g) = 2 then map (setHealth 75) ps else ps)"
proof -
  from assms obtain g4 where g4: "GenerateStage g4 = Some g'"
    and p4: "players g4 =
      (let ps = map (\<lambda>i. resetPlayer (coopMode g) i (players g ! i)) [0..<length (players g)]
       in if difficulty (settings g) = 0 then map (setHealth 150) ps
          else if difficulty (settings g) = 2 then map (setHealth 75) ps else ps)"
    by (auto simp: ResetGame_def Let_def)
  from GenerateStage_frame[OF g4] have "players g' = players g4" by auto
  with p4 show ?thesis by simp
qed



lemma ResetGame_total: "10 \<le> length (obstacles g) \<Longrightarrow> \<exists>g'. ResetGame g = Some g'"
  unfolding ResetGame_def Let_def by (rule GenerateStage_total) (simp split: if_splits)

lemma StartGame_total: "10 \<le> length (obstacles g) \<Longrightarrow> \<exists>g'. StartGame coop g = Some g'"
  unfolding StartGame_def Let_def by (rule ResetGame_total) simp


subsection \<open>The health of a player\<close>

text \<open>The upper bound of the health of a player.\<close>

definition healthOk :: "Player \<Rightarrow> bool" where
  "healthOk p \<longleftrightarrow> Player.health p \<le> PlayerStats.maxHealth (stats p)"

lemma UseSkill_health:
  assumes "UseSkill p k g = Some (p', g')"
  shows "Player.health p' =
     (if k = 2 \<and> ready (skills p ! 2)
      then min (Player.health p + 30) (PlayerStats.maxHealth (stats p)) else Player.health p)"
  using assms
  by (auto simp: UseSkill_def Let_def split: if_splits option.splits)

lemma UseSkill_healthOk:
  assumes "UseSkill p k g = Some (p', g')" "healthOk p"
  shows "healthOk p'"
  using assms(2) UseSkill_health[OF assms(1)] UseSkill_stats(1)[OF assms(1)]
  by (auto simp: healthOk_def)

lemma applyPowerUp_healthOk: "healthOk p \<Longrightarrow> healthOk (applyPowerUp t p)"
  by (simp add: healthOk_def applyPowerUp_def)

lemma upgradePlayer_healthOk: "healthOk p \<Longrightarrow> healthOk (upgradePlayer c p)"
  by (simp add: healthOk_def upgradePlayer_def Let_def)

lemma healthOk_invariant: "playerInvariant dt healthOk"
  unfolding playerInvariant_def
proof (intro conjI allI impI, goal_cases)
  case (1 p q)
  then show ?case by (simp add: healthOk_def)
next
  case (2 p)
  then show ?case by (simp add: healthOk_def)
next
  case (3 p k h p' h')
  then show ?case using UseSkill_healthOk by blast
next
  case (4 p d)
  then show ?case by (simp add: healthOk_def)
next
  case (5 p t)
  then show ?case by (rule applyPowerUp_healthOk)
qed

lemma createPlayer_healthOk: "healthOk (createPlayer pid pos)"
  by (simp add: healthOk_def createPlayer_def Let_def)

lemma resetPlayer_healthOk: "healthOk (resetPlayer coop i p)"
  by (simp add: healthOk_def resetPlayer_def Let_def)

lemma setHealth_healthOk: "healthOk (setHealth h p)"
  by (simp add: healthOk_def setHealth_def)

lemma ResetGame_healthOk:
  assumes "ResetGame g = Some g'"
  shows "list_all healthOk (players g')"
  unfolding ResetGame_players[OF assms]
  by (auto simp: Let_def list_all_iff resetPlayer_healthOk setHealth_healthOk)

lemma ApplyUpgrade_healthOk:
  "list_all healthOk (players g) \<Longrightarrow> list_all healthOk (players (ApplyUpgrade c g))"
  by (simp add: ApplyUpgrade_def Let_def list_all_iff upgradePlayer_healthOk)

lemma contactPlayer_health:
  assumes "pIdx < length (players g)"
  shows "Player.health (players (contactPlayer i pIdx g) ! pIdx) =
        (if playerDist i pIdx g < collisionDist (enemies g ! i)
         then Player.health (players g ! pIdx) - contactDamage (enemies g ! i)
         else Player.health (players g ! pIdx))"
    and "stats (players (contactPlayer i pIdx g) ! pIdx) = stats (players g ! pIdx)"
  using assms by (simp_all add: contactPlayer_players)


subsection \<open>A tick without input\<close>

text \<open>
  The input of a frame with no key down, the mouse and the projection of the player
  at the same point of the screen.
\<close>

definition idle :: Input where
  "idle = \<lparr>IsKeyPressed = (\<lambda>k. False), IsKeyDown = (\<lambda>k. False), IsMouseButtonDown = False,
           GetMousePosition = (0, 0), GetWorldToScreen = (\<lambda>v. (0, 0))\<rparr>"

text \<open>Loops over pools with nothing active do nothing.\<close>

lemma fold_id: "(\<And>i. i \<in> set ns \<Longrightarrow> f i g = g) \<Longrightarrow> fold f ns g = g"
  by (induction ns) auto

lemma forEachM_id: "(\<And>i. i \<in> set ns \<Longrightarrow> f i g = Some g) \<Longrightarrow> forEachM f ns g = Some g"
  by (induction ns) auto

lemma bulletStep_inactive: "\<not> Bullet.active (bullets g ! i) \<Longrightarrow> bulletStep dt i g = g"
  by (simp add: bulletStep_def Let_def)

lemma bulletHit_inactive: "\<not> Bullet.active (bullets g ! j) \<Longrightarrow> bulletHit i j g = Some g"
  by (simp add: bulletHit_def)

lemma enemyStep_inactive: "\<not> Enemy.active (enemies g ! i) \<Longrightarrow> enemyStep dt i g = Some g"
  by (simp add: enemyStep_def)

lemma powerUpStep_inactive: "\<not> PowerUp.active (powerUps g ! i) \<Longrightarrow> powerUpStep dt i g = g"
  by (simp add: powerUpStep_def)

lemma bullets_quiet:
  assumes "list_all (\<lambda>b. \<not> Bullet.active b) (bullets g)"
  shows "fold (bulletStep dt) [0..<length (bullets g)] g = g"
    and "forEachM (bulletHit i) [0..<length (bullets g)] g = Some g"
  using assms
  by (auto intro!: fold_id forEachM_id bulletStep_inactive bulletHit_inactive simp: list_all_length)

lemma powerUps_quiet:
  assumes "list_all (\<lambda>p. \<not> PowerUp.active p) (powerUps g)"
  shows "fold (powerUpStep dt) [0..<length (powerUps g)] g = g"
  using assms
  by (auto intro!: fold_id powerUpStep_inactive simp: list_all_length)

lemma no_obstacles:
  assumes "list_all (\<lambda>ob. \<not> Obstacle.active ob) (obstacles g)"
  shows "\<not> CheckObstacleCollision g pos r"
  using assms
  by (auto simp: CheckObstacleCollision_def CheckObstacleCollision_loop_iff list_ex_iff list_all_iff)

lemma coolDown_ready: "list_all ready sks \<Longrightarrow> map (coolDown dt) sks = sks"
  by (induction sks) (simp_all add: coolDown_def)

lemma moveInput_idle:
  "moveInput idle u d l r dt p =
     (Player.position p, False,
      (if tiltAngle p > 0 then p\<lparr>tiltAngle := max 0 (tiltAngle p - dt * 2)\<rparr>
       else p\<lparr>tiltAngle := min 0 (tiltAngle p + dt * 2)\<rparr>))"
  by (simp add: moveInput_def idle_def Let_def)

lemma Atan2_0: "Atan2 0 0 = 0"
  by (simp add: Atan2_def)

lemma controlsP1_idle:
  "controlsP1 dt idle p g =
     (Player.position p, False,
      (if tiltAngle p > 0 then p\<lparr>tiltAngle := max 0 (tiltAngle p - dt * 2)\<rparr>
       else p\<lparr>tiltAngle := min 0 (tiltAngle p + dt * 2)\<rparr>)\<lparr>angle := 0\<rparr>, g)"
  unfolding controlsP1_def moveInput_idle
  by (simp add: idle_def Let_def Atan2_0)

lemma skillKeys_idle: "skillKeys idle pIdx p g = Some (p, g)"
  by (simp add: skillKeys_def skillKey_def idle_def)

lemma clamp_id:
  assumes "\<bar>X (Player.position p)\<bar> \<le> 17" "\<bar>Z (Player.position p)\<bar> \<le> 17"
  shows "clampPlayerToStageBounds g p 0.9 = p"
proof -
  obtain half where h: "(if currentStage g = StageArena then 18.0 - 0.9
                  else if currentStage g = StageMaze then 28.0 - 0.9
                  else if currentStage g = StageHazard then 29.0 - 0.9
                  else 30.0 - 0.9) = (half::real)" and h17: "17 \<le> half"
    by simp
  from assms h17 have b: "\<not> X (Player.position p) < - half" "\<not> X (Player.position p) > half"
    "\<not> Z (Player.position p) < - half" "\<not> Z (Player.position p) > half"
    by linarith+
  show ?thesis
    unfolding clampPlayerToStageBounds_def h
    by (simp only: Let_def b if_False)
qed

lemma idle_playerStep:
  assumes "0 < length (players g)" "list_all ready (skills (players g ! 0))"
    "tiltAngle (players g ! 0) = 0" "0 \<le> dt"
    "\<bar>X (Player.position (players g ! 0))\<bar> \<le> 17" "\<bar>Z (Player.position (players g ! 0))\<bar> \<le> 17"
  shows "playerStep dt idle 0 g =
     Some (g\<lparr>players := (players g)[0 := (players g ! 0)\<lparr>angle := 0, isMoving := False\<rparr>]\<rparr>)"
proof -
  let ?p = "players g ! 0"
  have 1: "?p\<lparr>skills := map (coolDown dt) (skills ?p)\<rparr> = ?p"
    by (simp add: coolDown_ready[OF assms(2)])
  have t: "min 0 (dt * 2) = 0" using assms(4) by simp
  have 2: "controlsP1 dt idle ?p g = (Player.position ?p, False, ?p\<lparr>angle := 0\<rparr>, g)"
    unfolding controlsP1_idle by (simp add: assms(3) t)
  have 3: "(if \<not> CheckObstacleCollision g (Player.position ?p) 0.9
            then (?p\<lparr>angle := 0\<rparr>)\<lparr>Player.position := Player.position ?p\<rparr> else ?p\<lparr>angle := 0\<rparr>)
           = ?p\<lparr>angle := 0\<rparr>"
    by simp
  have 4: "clampPlayerToStageBounds g (?p\<lparr>angle := 0\<rparr>) 0.9 = ?p\<lparr>angle := 0\<rparr>"
    by (rule clamp_id) (simp_all add: assms(5,6))
  show ?thesis
    unfolding playerStep_def Let_def 1
    by (simp only: if_True 2 split_conv skillKeys_idle option.case) (use 4 in simp)
qed

lemma contactPlayer_frame [simp]:
  "bullets (contactPlayer i pIdx g) = bullets g"
  "powerUps (contactPlayer i pIdx g) = powerUps g"
  "obstacles (contactPlayer i pIdx g) = obstacles g"
  by (simp_all add: contactPlayer_def Let_def)

lemma contactPlayer_enemies_standing:
  "playerDist i pIdx g = 0 \<Longrightarrow> enemies (contactPlayer i pIdx g) = enemies g"
  by (simp add: contactPlayer_def Let_def)

lemma moveEnemy_standing:
  assumes "np < length (players g)" "i < length (enemies g)" "\<not> isBoss (enemies g ! i)"
    "X (Enemy.position (enemies g ! i)) = X (Player.position (players g ! np))"
    "Z (Enemy.position (enemies g ! i)) = Z (Player.position (players g ! np))"
    "X (Enemy.velocity (enemies g ! i)) = 0" "Z (Enemy.velocity (enemies g ! i)) = 0"
  shows "moveEnemy dt i np g = g"
proof -
  let ?e = "enemies g ! i"
  have v: "\<lparr>X = X (Enemy.position ?e) + X (Enemy.velocity ?e) * dt, Y = Y (Enemy.position ?e),
            Z = Z (Enemy.position ?e) + Z (Enemy.velocity ?e) * dt\<rparr> = Enemy.position ?e"
    by (simp add: assms(6,7))
  have g: "g\<lparr>enemies := (enemies g)[i := ?e]\<rparr> = g" by simp
  have d: "X (Player.position (players g ! np)) - X (Enemy.position ?e) = 0"
    "Z (Player.position (players g ! np)) - Z (Enemy.position ?e) = 0"
    by (simp_all add: assms(4,5))
  have m: "moveTo i (Enemy.position ?e) g = g"
    by (simp add: moveTo_def)
  show ?thesis
    unfolding moveEnemy_def Let_def
    by (simp add: assms(3) d g v m)
qed

lemma nearestPlayer_single: "nearestPlayer [0] i g m 0 = 0"
  by (simp add: Let_def)

lemma enemyStep_standing:
  assumes "players g = [p]" "i < length (enemies g)"
    "Enemy.active (enemies g ! i)" "\<not> isBoss (enemies g ! i)"
    "X (Enemy.position (enemies g ! i)) = X (Player.position p)"
    "Z (Enemy.position (enemies g ! i)) = Z (Player.position p)"
    "X (Enemy.velocity (enemies g ! i)) = 0" "Z (Enemy.velocity (enemies g ! i)) = 0"
    "list_all (\<lambda>b. \<not> Bullet.active b) (bullets g)"
  shows "enemyStep dt i g = Some (contactPlayer i 0 g)"
    and "playerDist i 0 g = 0"
proof -
  have m: "moveEnemy dt i 0 g = g"
    by (rule moveEnemy_standing) (simp_all add: assms)
  have u: "[0..<length (players g)] = [0]" by (simp add: assms(1))
  have b: "forEachM (bulletHit i) [0..<length (bullets (contactPlayer i 0 g))] (contactPlayer i 0 g)
           = Some (contactPlayer i 0 g)"
    by (rule bullets_quiet(2)) (simp add: assms(9))
  have "enemyStep dt i g =
        forEachM (bulletHit i) [0..<length (bullets (contactPlayer i 0 g))] (contactPlayer i 0 g)"
    unfolding enemyStep_def Let_def u nearestPlayer_single m
    by (simp add: assms(1,3))
  then show "enemyStep dt i g = Some (contactPlayer i 0 g)" using b by simp
  show "playerDist i 0 g = 0"
    by (simp add: playerDist_def Let_def assms(1,5,6))
qed

text \<open>
  The tick of a single player, without input, with an enemy in slot 0 standing on
  the player and nothing else active: the contact takes 20 health.
\<close>

lemma standing_contact_tick:
  assumes pl: "players g = [p]" "list_all ready (skills p)" "tiltAngle p = 0"
      "\<bar>X (Player.position p)\<bar> \<le> 17" "\<bar>Z (Player.position p)\<bar> \<le> 17"
    and dt: "0 \<le> dt" "spawnTimer g + dt \<le> spawnInterval g"
    and quiet: "list_all (\<lambda>b. \<not> Bullet.active b) (bullets g)"
      "list_all (\<lambda>p. \<not> PowerUp.active p) (powerUps g)"
    and boss: "go_rem (level g) 5 \<noteq> 0" "\<not> bossActive g"
    and en: "enemies g = e # es" "Enemy.active e" "\<not> isBoss e"
      "X (Enemy.position e) = X (Player.position p)" "Z (Enemy.position e) = Z (Player.position p)"
      "X (Enemy.velocity e) = 0" "Z (Enemy.velocity e) = 0"
      "list_all (\<lambda>e. \<not> Enemy.active e) es"
  shows "\<exists>g'. UpdatePlaying dt idle g = Some g' \<and>
           players g' = [p\<lparr>angle := 0, isMoving := False, Player.health := Player.health p - 20\<rparr>] \<and>
           state g' = (if Player.health p - 20 \<le> 0 then StateGameOver else state g) \<and>
           highScore g' = (if Player.health p - 20 \<le> 0 \<and> score g > highScore g
                           then score g else highScore g)"
proof -
  define p2 where "p2 = p\<lparr>angle := 0, isMoving := False\<rparr>"
  define g1 where "g1 = g\<lparr>gameTime := gameTime g + dt\<rparr>"
  define g2 where "g2 = g1\<lparr>players := [p2]\<rparr>"
  define g5 where "g5 = g2\<lparr>spawnTimer := spawnTimer g2 + dt\<rparr>"
  define g6 where "g6 = contactPlayer 0 0 g5"
  define g7 where "g7 = g6\<lparr>particles := map (particleStep dt) (particles g6)\<rparr>"
  have p1: "players g1 = [p]" by (simp add: g1_def pl(1))
  have "playerStep dt idle 0 g1 =
     Some (g1\<lparr>players := (players g1)[0 := (players g1 ! 0)\<lparr>angle := 0, isMoving := False\<rparr>]\<rparr>)"
    by (rule idle_playerStep) (simp_all add: p1 pl dt)
  then have "playerStep dt idle 0 g1 = Some g2" by (simp add: p1 g2_def p2_def)
  then have s2: "forEachM (playerStep dt idle) [0..<length (players g1)] g1 = Some g2"
    by (simp add: p1)
  have s3: "fold (bulletStep dt) [0..<length (bullets g2)] g2 = g2"
    by (rule bullets_quiet(1)) (simp add: g2_def g1_def quiet)
  have s4: "bossSpawnCheck g2 = g2"
    by (simp add: bossSpawnCheck_def g2_def g1_def boss)
  have s5: "spawnEnemies dt g2 = Some g5"
    using dt(2) by (simp add: spawnEnemies_def g5_def g2_def g1_def boss Let_def)
  have f5: "players g5 = [p2]" "enemies g5 = e # es" "bullets g5 = bullets g"
    "powerUps g5 = powerUps g" "score g5 = score g" "highScore g5 = highScore g"
    "state g5 = state g"
    by (simp_all add: g5_def g2_def g1_def en(1))
  have p2f: "Player.position p2 = Player.position p" "Player.health p2 = Player.health p"
    by (simp_all add: p2_def)
  have e0: "enemyStep dt 0 g5 = Some g6" and d0: "playerDist 0 0 g5 = 0"
    unfolding g6_def
    by (rule enemyStep_standing[where p = p2]; simp add: f5 en p2f quiet)+
  have e6: "enemies g6 = e # es"
    unfolding g6_def contactPlayer_enemies_standing[OF d0] by (rule f5(2))
  have rest: "forEachM (enemyStep dt) [Suc 0..<Suc (length es)] g6 = Some g6"
  proof (rule forEachM_id, rule enemyStep_inactive)
    fix i assume "i \<in> set [Suc 0..<Suc (length es)]"
    then have "0 < i" "i - 1 < length es" by auto
    then show "\<not> Enemy.active (enemies g6 ! i)"
      using en(8) by (simp add: e6 nth_Cons' list_all_length)
  qed
  have "[0..<Suc (length es)] = 0 # [Suc 0..<Suc (length es)]"
    by (rule upt_conv_Cons) simp
  moreover have "length (enemies g5) = Suc (length es)" by (simp add: f5(2))
  ultimately have "[0..<length (enemies g5)] = 0 # [Suc 0..<Suc (length es)]"
    by (simp only:)
  then have s6: "forEachM (enemyStep dt) [0..<length (enemies g5)] g5 = Some g6"
    using e0 rest by simp
  have s7: "fold (powerUpStep dt) [0..<length (powerUps g7)] g7 = g7"
    by (rule powerUps_quiet) (simp add: g7_def g6_def f5 quiet)
  have u: "UpdatePlaying dt idle g = Some g7"
    unfolding UpdatePlaying_def Let_def g1_def[symmetric]
    by (simp add: idle_def[symmetric] s2 s3 s4 s5 s6 g7_def[symmetric] s7)
      (simp add: idle_def)
  have c: "collisionDist e = 1.5" "contactDamage e = 20"
    by (simp_all add: collisionDist_def contactDamage_def en(3))
  have "players g7 = [p2\<lparr>Player.health := Player.health p2 - 20\<rparr>]"
    using d0 c by (simp add: g7_def g6_def contactPlayer_players f5)
  moreover have "state g7 = (if Player.health p - 20 \<le> 0 then StateGameOver else state g)"
    using d0 c by (simp add: g7_def g6_def contactPlayer_fields f5 p2f)
  moreover have "highScore g7 = (if Player.health p - 20 \<le> 0 \<and> score g > highScore g
                           then score g else highScore g)"
    using d0 c by (simp add: g7_def g6_def contactPlayer_fields f5 p2f)
  ultimately show ?thesis using u by (simp add: p2_def)
qed

section \<open>Example states\<close>

text \<open>
  A running single-player game built on \<open>NewGame\<close>: level \<open>lvl\<close>, \<open>kills\<close> kills so
  far, and the enemy \<open>e\<close> in slot 0. Every draw of the random source is 0.
\<close>

definition grunt :: Enemy where
  "grunt = \<lparr>Enemy.position = NewVector3 10 0.75 0, Enemy.velocity = NewVector3 (-3) 0 0,
            Enemy.active = True, Enemy.health = 1, Enemy.maxHealth = 1, Enemy.size = 1,
            isBoss = False\<rparr>"

definition bossEnemy :: Enemy where
  "bossEnemy = \<lparr>Enemy.position = NewVector3 30 1.5 0, Enemy.velocity = NewVector3 0 0 0,
            Enemy.active = True, Enemy.health = 150, Enemy.maxHealth = 150, Enemy.size = 4,
            isBoss = True\<rparr>"

definition playState :: "int \<Rightarrow> int \<Rightarrow> Enemy \<Rightarrow> Game" where
  "playState lvl kills e =
     (NewGame (sconst 0))
       \<lparr>state := StatePlaying,
        players := [createPlayer 0 (NewVector3 0 0.5 0)],
        enemies := (enemies (NewGame (sconst 0)))[0 := e],
        level := lvl, enemiesKilled := kills, spawnInterval := 1.5, upgradeChoice := -1\<rparr>"

lemma playState_simps [simp]:
  "length (enemies (playState lvl kills e)) = 80"
  "length (obstacles (playState lvl kills e)) = 30"
  "enemies (playState lvl kills e) ! 0 = e"
  "level (playState lvl kills e) = lvl"
  "enemiesKilled (playState lvl kills e) = kills"
  "score (playState lvl kills e) = 0"
  "state (playState lvl kills e) = StatePlaying"
  "spawnInterval (playState lvl kills e) = 1.5"
  by (simp_all add: playState_def NewGame_def maxEnemies_def maxObstacles_def)

lemma isBoss_bossEnemy: "isBoss bossEnemy" "\<not> isBoss grunt"
  by (simp_all add: bossEnemy_def grunt_def)

text \<open>A player whose first skill is cooling down.\<close>

definition coolingPlayer :: Player where
  "coolingPlayer =
     (createPlayer 0 (NewVector3 0 0.5 0))
       \<lparr>skills := [\<lparr>name = ''Explosion'', cooldown = 8.0, maxCooldown = 8.0, ready = False\<rparr>,
                   \<lparr>name = ''Radial Shot'', cooldown = 0, maxCooldown = 10.0, ready = True\<rparr>,
                   \<lparr>name = ''Energy Shield'', cooldown = 0, maxCooldown = 15.0, ready = True\<rparr>]\<rparr>"

text \<open>
  A state with every enemy slot free and an obstacle on the first spawn candidate:
  the draws give the candidates \<open>(25, 0)\<close> and then \<open>(27.5, 0)\<close>.
\<close>

definition blockedState :: Game where
  "blockedState =
     (playState 1 0 grunt)
       \<lparr>enemies := enemies (NewGame (sconst 0)),
        obstacles :=
          \<lparr>Obstacle.position = NewVector3 25 1 0, Obstacle.size = NewVector3 2 3 2,
           Obstacle.active = True, obsType = 0\<rparr>
          # replicate 29 \<lparr>Obstacle.position = zeroVector3, Obstacle.size = zeroVector3,
                          Obstacle.active = False, obsType = 0\<rparr>,
        rng := 0 ## 0 ## 0 ## 2 ^ 52 ## sconst 0\<rparr>"

lemma blockedState_facts:
  "firstFree Enemy.active (enemies blockedState) = Some 0"
  "firstFree Enemy.active (drop (Suc 0) (enemies blockedState)) = Some 0"
  "players blockedState \<noteq> []"
  "fst (spawnCandidate blockedState) = NewVector3 25 0.75 0"
  "fst (spawnCandidate (snd (spawnCandidate blockedState))) = NewVector3 27.5 0.75 0"
  "CheckObstacleCollision blockedState (NewVector3 25 0.75 0) 1"
  "\<not> CheckObstacleCollision blockedState (NewVector3 27.5 0.75 0) 1"
proof -
  have e: "enemies blockedState = replicate 80 (enemies blockedState ! 0)"
    "\<not> Enemy.active (enemies blockedState ! 0)"
    by (simp_all add: blockedState_def NewGame_def maxEnemies_def)
  have r: "replicate 80 x = x # x # replicate 78 x" for x :: Enemy
    by (simp add: eval_nat_numeral)
  show "firstFree Enemy.active (enemies blockedState) = Some 0"
    "firstFree Enemy.active (drop (Suc 0) (enemies blockedState)) = Some 0"
    using e(2) by (subst e(1), simp add: r)+
  show "players blockedState \<noteq> []" by (simp add: blockedState_def playState_def)
  show "fst (spawnCandidate blockedState) = NewVector3 25 0.75 0"
    "fst (spawnCandidate (snd (spawnCandidate blockedState))) = NewVector3 27.5 0.75 0"
    by (simp_all add: spawnCandidate_def randFloat64_def Let_def blockedState_def)
  show "CheckObstacleCollision blockedState (NewVector3 25 0.75 0) 1"
    "\<not> CheckObstacleCollision blockedState (NewVector3 27.5 0.75 0) 1"
    by (simp_all add: CheckObstacleCollision_def CheckObstacleCollision_loop_iff list_ex_iff
        blockedState_def aabbHit_def NewVector3_def zeroVector3_def)
qed



text \<open>
  An enemy standing on the player, and a state where this player has 10 health
  left, with a score of 70 above the high score of 50.
\<close>

definition lurker :: Enemy where
  "lurker = \<lparr>Enemy.position = NewVector3 0 0.75 0, Enemy.velocity = NewVector3 0 0 0,
             Enemy.active = True, Enemy.health = 1, Enemy.maxHealth = 1, Enemy.size = 1,
             isBoss = False\<rparr>"

definition contactState :: Game where
  "contactState =
     (playState 1 0 lurker)
       \<lparr>players := [(createPlayer 0 (NewVector3 0 0.5 0))\<lparr>Player.health := 10\<rparr>],
        score := 70, highScore := 50\<rparr>"

lemma contactState_simps:
  "players contactState = [(createPlayer 0 (NewVector3 0 0.5 0))\<lparr>Player.health := 10\<rparr>]"
  "enemies contactState ! 0 = lurker"
  "score contactState = 70" "highScore contactState = 50" "state contactState = StatePlaying"
  by (simp_all add: contactState_def)

lemma hitState_simps:
  "players (playState lvl kills e) = [createPlayer 0 (NewVector3 0 0.5 0)]"
  "highScore (playState lvl kills e) = 0"
  by (simp_all add: playState_def NewGame_def)

lemma contactState_lethal:
  "playerDist 0 0 contactState = 0"
  "playerDist 0 0 (playState 1 0 lurker) = 0"
  "collisionDist lurker = 1.5" "contactDamage lurker = 20"
  by (simp_all add: playerDist_def contactState_simps hitState_simps lurker_def createPlayer_def
      NewVector3_def Let_def collisionDist_def contactDamage_def)


lemma NewGame_obstacles: "10 \<le> length (obstacles (NewGame r))"
  by (simp add: NewGame_def maxObstacles_def)


lemma playState_players_ok:
  "list_all skillsOk (players (playState lvl kills e))"
  "list_all healthOk (players (playState lvl kills e))"
  by (simp_all add: hitState_simps createPlayer_ok createPlayer_healthOk)


text \<open>A player at 90 of 100 health, the shield ready.\<close>

definition woundedPlayer :: Player where
  "woundedPlayer = (createPlayer 0 (NewVector3 0 0.5 0))\<lparr>Player.health := 90\<rparr>"

lemma woundedPlayer_facts:
  "healthOk woundedPlayer" "Player.health woundedPlayer = 90"
  "PlayerStats.maxHealth (stats woundedPlayer) = 100" "ready (skills woundedPlayer ! 2)"
  "\<exists>p' g'. UseSkill woundedPlayer 2 g = Some (p', g')"
  by (simp_all add: woundedPlayer_def healthOk_def createPlayer_def defaultStats_def Let_def
      UseSkill_def)


text \<open>
  The tick of \<open>contactState\<close> with no input and a frame time of 1/64 s: the enemy
  standing on the player hits, the player is left with a health of \<open>-10\<close>, the game
  is over and the high score is the score.
\<close>

lemma playState_pools:
  "list_all (\<lambda>b. \<not> Bullet.active b) (bullets (playState lvl kills e))"
  "list_all (\<lambda>p. \<not> PowerUp.active p) (powerUps (playState lvl kills e))"
  "\<not> bossActive (playState lvl kills e)" "spawnTimer (playState lvl kills e) = 0"
  "\<exists>es. enemies (playState lvl kills e) = e # es \<and> list_all (\<lambda>e. \<not> Enemy.active e) es"
proof -
  have "replicate 80 z = z # replicate 79 z" for z :: Enemy
    using replicate_Suc[of 79 z] by simp
  then show "\<exists>es. enemies (playState lvl kills e) = e # es \<and> list_all (\<lambda>e. \<not> Enemy.active e) es"
    by (simp add: playState_def NewGame_def maxEnemies_def list_all_iff)
qed (simp_all add: playState_def NewGame_def list_all_iff)

lemma createPlayer_fields:
  "list_all ready (skills (createPlayer pid pos))" "tiltAngle (createPlayer pid pos) = 0"
  "Player.position (createPlayer pid pos) = pos" "angle (createPlayer pid pos) = 0"
  "\<not> isMoving (createPlayer pid pos)"
  by (simp_all add: createPlayer_def Let_def)

lemma NewVector3_sel: "X (NewVector3 x y z) = x" "Y (NewVector3 x y z) = y" "Z (NewVector3 x y z) = z"
  by (simp_all add: NewVector3_def)

lemma contactState_tick:
  "\<exists>g'. UpdatePlaying (1 / 64) idle contactState = Some g' \<and>
     players g' = [(createPlayer 0 (NewVector3 0 0.5 0))\<lparr>Player.health := - 10\<rparr>] \<and>
     state g' = StateGameOver \<and> highScore g' = 70"
proof -
  let ?p = "(createPlayer 0 (NewVector3 0 0.5 0))\<lparr>Player.health := 10\<rparr>"
  let ?g = "playState 1 0 lurker"
  obtain es where es: "enemies ?g = lurker # es" "list_all (\<lambda>e. \<not> Enemy.active e) es"
    using playState_pools(5)[of 1 0 lurker] by blast
  have f: "players contactState = [?p]" "enemies contactState = lurker # es"
    "bullets contactState = bullets ?g" "powerUps contactState = powerUps ?g"
    "bossActive contactState = bossActive ?g" "spawnTimer contactState = spawnTimer ?g"
    "level contactState = 1" "spawnInterval contactState = 1.5"
    "score contactState = 70" "highScore contactState = 50" "state contactState = StatePlaying"
    by (simp_all add: contactState_def es(1))
  have pf: "?p\<lparr>angle := 0, isMoving := False, Player.health := Player.health ?p - 20\<rparr> =
       (createPlayer 0 (NewVector3 0 0.5 0))\<lparr>Player.health := - 10\<rparr>"
    by (simp add: createPlayer_def Let_def)
  have lf: "Enemy.active lurker" "\<not> isBoss lurker"
    "X (Enemy.position lurker) = 0" "Z (Enemy.position lurker) = 0"
    "X (Enemy.velocity lurker) = 0" "Z (Enemy.velocity lurker) = 0"
    by (simp_all add: lurker_def NewVector3_def)
  have "\<exists>g'. UpdatePlaying (1 / 64) idle contactState = Some g' \<and>
           players g' = [?p\<lparr>angle := 0, isMoving := False, Player.health := Player.health ?p - 20\<rparr>] \<and>
           state g' = (if Player.health ?p - 20 \<le> 0 then StateGameOver else state contactState) \<and>
           highScore g' = (if Player.health ?p - 20 \<le> 0 \<and> score contactState > highScore contactState
                           then score contactState else highScore contactState)"
  proof (rule standing_contact_tick[where e = lurker and es = es])
    show "go_rem (level contactState) 5 \<noteq> 0" by (simp add: f(7) go_rem_nonneg)
    show "spawnTimer contactState + 1 / 64 \<le> spawnInterval contactState"
      by (simp add: f playState_pools)
  qed (simp_all add: f createPlayer_fields NewVector3_sel lf es(2) playState_pools)
  then show ?thesis unfolding pf by (simp add: f)
qed

section \<open>The claims\<close>

subsection \<open>C2: CheckObstacleCollision\<close>

text \<open>
  The reading of the claim: the closed disc of the given radius around \<open>pos\<close> meets
  the closed rectangle of the obstacle. \<open>nearestInRect\<close> is the coordinate of the
  rectangle's point nearest to \<open>p\<close>; the disc meets the rectangle exactly when that
  point is within the radius (\<open>circleMeetsRect_iff\<close>).
\<close>

definition nearestInRect :: "real \<Rightarrow> real \<Rightarrow> real \<Rightarrow> real" where
  "nearestInRect lo hi p = max lo (min hi p)"

definition circleMeetsRect :: "Vector3 \<Rightarrow> real \<Rightarrow> Obstacle \<Rightarrow> bool" where
  "circleMeetsRect pos radius obs \<longleftrightarrow>
     (let cx = nearestInRect (X (Obstacle.position obs) - X (Obstacle.size obs) / 2)
                             (X (Obstacle.position obs) + X (Obstacle.size obs) / 2) (X pos);
          cz = nearestInRect (Z (Obstacle.position obs) - Z (Obstacle.size obs) / 2)
                             (Z (Obstacle.position obs) + Z (Obstacle.size obs) / 2) (Z pos)
      in (X pos - cx)\<^sup>2 + (Z pos - cz)\<^sup>2 \<le> radius\<^sup>2)"

lemma nearestInRect_le:
  assumes "lo \<le> x" "x \<le> hi"
  shows "(p - nearestInRect lo hi p)\<^sup>2 \<le> (p - x)\<^sup>2"
proof -
  have "\<bar>p - nearestInRect lo hi p\<bar> \<le> \<bar>p - x\<bar>"
    using assms by (auto simp: nearestInRect_def max_def min_def)
  then show ?thesis by (simp add: abs_le_square_iff)
qed

lemma nearestInRect_in:
  assumes "lo \<le> hi"
  shows "lo \<le> nearestInRect lo hi p \<and> nearestInRect lo hi p \<le> hi"
  using assms by (auto simp: nearestInRect_def max_def min_def)

lemma circleMeetsRect_iff:
  assumes "0 \<le> X (Obstacle.size obs)" "0 \<le> Z (Obstacle.size obs)"
  shows "circleMeetsRect pos radius obs \<longleftrightarrow>
     (\<exists>x z. X (Obstacle.position obs) - X (Obstacle.size obs) / 2 \<le> x \<and>
            x \<le> X (Obstacle.position obs) + X (Obstacle.size obs) / 2 \<and>
            Z (Obstacle.position obs) - Z (Obstacle.size obs) / 2 \<le> z \<and>
            z \<le> Z (Obstacle.position obs) + Z (Obstacle.size obs) / 2 \<and>
            (X pos - x)\<^sup>2 + (Z pos - z)\<^sup>2 \<le> radius\<^sup>2)" (is "?L \<longleftrightarrow> ?R")
proof
  let ?lx = "X (Obstacle.position obs) - X (Obstacle.size obs) / 2"
  let ?hx = "X (Obstacle.position obs) + X (Obstacle.size obs) / 2"
  let ?lz = "Z (Obstacle.position obs) - Z (Obstacle.size obs) / 2"
  let ?hz = "Z (Obstacle.position obs) + Z (Obstacle.size obs) / 2"
  have lx: "?lx \<le> ?hx" and lz: "?lz \<le> ?hz" using assms by simp_all
  {
    assume ?L
    then have "(X pos - nearestInRect ?lx ?hx (X pos))\<^sup>2 + (Z pos - nearestInRect ?lz ?hz (Z pos))\<^sup>2 \<le> radius\<^sup>2"
      by (simp add: circleMeetsRect_def Let_def)
    with nearestInRect_in[OF lx, of "X pos"] nearestInRect_in[OF lz, of "Z pos"]
    show ?R by blast
  }
  {
    assume ?R
    then obtain x z where xz: "?lx \<le> x" "x \<le> ?hx" "?lz \<le> z" "z \<le> ?hz"
      "(X pos - x)\<^sup>2 + (Z pos - z)\<^sup>2 \<le> radius\<^sup>2" by blast
    have "(X pos - nearestInRect ?lx ?hx (X pos))\<^sup>2 \<le> (X pos - x)\<^sup>2"
      by (rule nearestInRect_le) (use xz in auto)
    moreover have "(Z pos - nearestInRect ?lz ?hz (Z pos))\<^sup>2 \<le> (Z pos - z)\<^sup>2"
      by (rule nearestInRect_le) (use xz in auto)
    ultimately show ?L using xz(5) by (simp add: circleMeetsRect_def Let_def)
  }
qed

definition specBoxOverlap :: "Obstacle list \<Rightarrow> Vector3 \<Rightarrow> real \<Rightarrow> bool" where
  "specBoxOverlap obs pos radius = list_ex (\<lambda>ob. Obstacle.active ob \<and> circleMeetsRect pos radius ob) obs"

text \<open>The arena of levels 31 to 40: the four walls of \<open>GenerateArena\<close> in a pool of 30.\<close>

definition arenaObstacles :: "Obstacle list" where
  "arenaObstacles =
     map (\<lambda>wall. \<lparr>Obstacle.position = fst wall, Obstacle.size = snd wall,
                   Obstacle.active = True, obsType = 0\<rparr>) arenaWalls
     @ replicate 26 \<lparr>Obstacle.position = zeroVector3, Obstacle.size = zeroVector3,
                     Obstacle.active = False, obsType = 0\<rparr>"

definition arenaState :: Game where
  "arenaState = (playState 31 0 grunt)\<lparr>currentStage := StageArena, obstacles := arenaObstacles\<rparr>"

text \<open>
  C2, as amended. \<open>CheckObstacleCollision\<close> is true exactly when some active obstacle
  passes the test of the source: the axis-aligned square of half-side \<open>radius\<close>
  around \<open>pos\<close> (the bounding box of the circle) overlaps the obstacle's rectangle
  \<open>size.X\<close> by \<open>size.Z\<close> around its position, all four inequalities strict. The kind
  of the obstacle plays no part, and an overlap found in a prefix of the pool decides
  the result whatever follows.
\<close>

theorem CheckObstacleCollision_aabb:
  "(CheckObstacleCollision g pos radius \<longleftrightarrow>
      list_ex (\<lambda>ob. Obstacle.active ob \<and> aabbHit pos radius ob) (obstacles g)) \<and>
   CheckObstacleCollision (g\<lparr>obstacles := map (\<lambda>ob. ob\<lparr>obsType := k ob\<rparr>) (obstacles g)\<rparr>) pos radius
     = CheckObstacleCollision g pos radius \<and>
   (CheckObstacleCollision (g\<lparr>obstacles := pre @ rest\<rparr>) pos radius \<longleftrightarrow>
      CheckObstacleCollision (g\<lparr>obstacles := pre\<rparr>) pos radius \<or>
      CheckObstacleCollision (g\<lparr>obstacles := rest\<rparr>) pos radius)"
  by (simp add: CheckObstacleCollision_def CheckObstacleCollision_loop_iff [symmetric]
      CheckObstacleCollision_loop_obsType CheckObstacleCollision_loop_append)

text \<open>
  C2 as stated fails at a corner: in the arena, the point \<open>(15.75, -19.75)\<close> with radius 1
  is reported as colliding with the north wall (corner \<open>(15, -19)\<close>), although its
  distance to every wall exceeds 1.
\<close>

theorem CheckObstacleCollision_corner_counterexample:
  "CheckObstacleCollision arenaState (NewVector3 15.75 0.5 (-19.75)) 1 \<and>
   \<not> specBoxOverlap (obstacles arenaState) (NewVector3 15.75 0.5 (-19.75)) 1"
  by (simp add: CheckObstacleCollision_def arenaState_def arenaObstacles_def arenaWalls_def
      aabbHit_def NewVector3_def specBoxOverlap_def circleMeetsRect_def nearestInRect_def
      Let_def power2_eq_square list_ex_iff)

subsection \<open>C9: the stage archetype\<close>

text \<open>
  C9. \<open>GenerateStage\<close> sets the stage to \<open>archetype (level g)\<close>, which for a level
  of at least 1 is \<open>((level - 1) / stageInterval) mod 4\<close>, with 0 = Basic, 1 = Maze,
  2 = Hazard, 3 = Arena, and has period \<open>4 * stageInterval\<close>. (The pool of
  \<open>NewGame\<close> has 30 obstacle slots; 10 are enough for every stage.)
\<close>

theorem GenerateStage_archetype:
  assumes "1 \<le> level g" "10 \<le> length (obstacles g)"
  shows "(\<exists>g'. GenerateStage g = Some g' \<and> currentStage g' = archetype (level g)) \<and>
         archetype (level g) = ((level g - 1) div stageInterval) mod 4 \<and>
         archetype (level g) =
           [StageBasic, StageMaze, StageHazard, StageArena] ! nat (((level g - 1) div stageInterval) mod 4) \<and>
         archetype (level g + 4 * stageInterval) = archetype (level g)"
proof -
  from GenerateStage_total[OF assms(2)] obtain g' where g': "GenerateStage g = Some g'" by blast
  from GenerateStage_frame[OF g'] have cs: "currentStage g' = archetype (level g)" by auto
  have q: "0 \<le> (level g - 1) div 10" using assms(1) by simp
  have a: "archetype (level g) = ((level g - 1) div stageInterval) mod 4"
    using assms(1) q by (simp add: archetype_def stageInterval_def go_quo_nonneg go_rem_nonneg)
  have b: "archetype (level g + 4 * stageInterval) = ((level g + 40 - 1) div 10) mod 4"
    using assms(1) 
    by (simp add: archetype_def stageInterval_def go_quo_nonneg go_rem_nonneg)
  have "level g + 40 - 1 = (level g - 1) + 4 * 10" by simp
  then have "(level g + 40 - 1) div 10 = (level g - 1) div 10 + 4"
    by (simp only: div_mult_self1 [of 10 "level g - 1" 4])
  then have c: "((level g + 40 - 1) div 10) mod 4 = ((level g - 1) div 10) mod 4"
    by simp
  define k where "k = ((level g - 1) div 10) mod 4"
  have "0 \<le> k" "k < 4" by (simp_all add: k_def)
  then consider "k = 0" | "k = 1" | "k = 2" | "k = 3" by linarith
  then have d: "k = [StageBasic, StageMaze, StageHazard, StageArena] ! nat k"
    by cases (simp_all add: StageType_defs)
  show ?thesis using g' cs a b c d unfolding k_def stageInterval_def by auto
qed

theorem GenerateStage_archetype_witness:
  "1 \<le> level (playState 11 0 grunt) \<and> 10 \<le> length (obstacles (playState 11 0 grunt)) \<and>
   (\<exists>g'. GenerateStage (playState 11 0 grunt) = Some g' \<and> currentStage g' = StageMaze) \<and>
   archetype 11 = StageMaze \<and> archetype 51 = StageMaze"
  using GenerateStage_archetype[of "playState 11 0 grunt"]
  by (auto simp: stageInterval_def StageType_defs)

subsection \<open>C6: what KillEnemy awards\<close>

text \<open>
  C6. On a valid slot \<open>index\<close> (and a pool in which every stage fits), \<open>KillEnemy\<close>
  returns, with the enemy deactivated. For a boss: score plus 500, boss-active and
  boss-spawned cleared, level plus one, the stage regenerated (\<open>GenerateStage\<close> run on
  the obstacles at the new level) when the new level is 1 modulo \<open>stageInterval\<close> and
  left alone otherwise, and the state set to \<open>StateUpgrade\<close> exactly when the new level
  is 1 modulo 3 and above 1 (otherwise the state stays what it was). For any other
  enemy: score plus 10 times the level.
\<close>

theorem KillEnemy_rewards:
  assumes "0 \<le> index" "index < int (length (enemies g))" "10 \<le> length (obstacles g)"
  shows "\<exists>g'. KillEnemy index g = Some g' \<and>
           \<not> Enemy.active (enemies g' ! nat index) \<and>
           (if isBoss (enemies g ! nat index) then
              score g' = score g + 500 \<and> \<not> bossActive g' \<and> level g' = level g + 1 \<and>
              \<not> bossSpawned g' \<and>
              (if go_rem (level g') stageInterval = 1
               then (\<exists>h h'. obstacles h = obstacles g \<and> level h = level g' \<and>
                            GenerateStage h = Some h' \<and>
                            obstacles g' = obstacles h' \<and> currentStage g' = currentStage h')
               else obstacles g' = obstacles g \<and> currentStage g' = currentStage g) \<and>
              state g' = (if go_rem (level g') 3 = 1 \<and> level g' > 1 then StateUpgrade else state g)
            else score g' = score g + 10 * level g)"
proof -
  from KillEnemy_total[OF assms] obtain g' where g': "KillEnemy index g = Some g'" by blast
  have idx: "nat index < length (enemies g)" using assms(1,2) by (auto simp: nat_less_iff)
  have off: "\<not> Enemy.active (enemies g' ! nat index)"
    using idx by (simp add: KillEnemy_frame(10)[OF g'])
  show ?thesis
  proof (cases "isBoss (enemies g ! nat index)")
    case True
    note b = KillEnemy_boss[OF g' True]
    show ?thesis using g' off True b(1-6) b(7,8) by (auto simp: b(3))
  next
    case False
    show ?thesis using g' off False KillEnemy_nonboss(1)[OF g' False] by simp
  qed
qed

theorem KillEnemy_rewards_witness:
  "(0::int) \<le> 0 \<and> 0 < int (length (enemies (playState 10 0 bossEnemy))) \<and>
   10 \<le> length (obstacles (playState 10 0 bossEnemy)) \<and>
   (\<exists>g'. KillEnemy 0 (playState 10 0 bossEnemy) = Some g' \<and>
         \<not> Enemy.active (enemies g' ! 0) \<and> score g' = 500 \<and> level g' = 11 \<and>
         \<not> bossActive g' \<and> \<not> bossSpawned g' \<and> currentStage g' = StageMaze \<and>
         state g' = StatePlaying) \<and>
   (\<exists>g'. KillEnemy 0 (playState 3 0 bossEnemy) = Some g' \<and> state g' = StateUpgrade) \<and>
   (\<exists>g'. KillEnemy 0 (playState 7 0 grunt) = Some g' \<and> score g' = 70)"
proof -
  have 1: "\<exists>g'. KillEnemy 0 (playState 10 0 bossEnemy) = Some g' \<and>
         \<not> Enemy.active (enemies g' ! 0) \<and> score g' = 500 \<and> level g' = 11 \<and>
         \<not> bossActive g' \<and> \<not> bossSpawned g' \<and> currentStage g' = StageMaze \<and>
         state g' = StatePlaying"
  proof -
    let ?S = "playState 10 0 bossEnemy"
    have r11: "go_rem 11 stageInterval = 1" "go_rem 11 3 \<noteq> 1"
      by (simp_all add: go_rem_nonneg stageInterval_def)
    have "\<exists>g'. KillEnemy 0 ?S = Some g' \<and>
           \<not> Enemy.active (enemies g' ! nat 0) \<and>
           (if isBoss (enemies ?S ! nat 0) then
              score g' = score ?S + 500 \<and> \<not> bossActive g' \<and> level g' = level ?S + 1 \<and>
              \<not> bossSpawned g' \<and>
              (if go_rem (level g') stageInterval = 1
               then (\<exists>h h'. obstacles h = obstacles ?S \<and> level h = level g' \<and>
                            GenerateStage h = Some h' \<and>
                            obstacles g' = obstacles h' \<and> currentStage g' = currentStage h')
               else obstacles g' = obstacles ?S \<and> currentStage g' = currentStage ?S) \<and>
              state g' = (if go_rem (level g') 3 = 1 \<and> level g' > 1 then StateUpgrade else state ?S)
            else score g' = score ?S + 10 * level ?S)"
      by (rule KillEnemy_rewards) simp_all
    then obtain g' where g0: "KillEnemy 0 ?S = Some g'" "\<not> Enemy.active (enemies g' ! nat 0)"
      and q: "score g' = score ?S + 500 \<and> \<not> bossActive g' \<and> level g' = level ?S + 1 \<and>
              \<not> bossSpawned g' \<and>
              (if go_rem (level g') stageInterval = 1
               then (\<exists>h h'. obstacles h = obstacles ?S \<and> level h = level g' \<and>
                            GenerateStage h = Some h' \<and>
                            obstacles g' = obstacles h' \<and> currentStage g' = currentStage h')
               else obstacles g' = obstacles ?S \<and> currentStage g' = currentStage ?S) \<and>
              state g' = (if go_rem (level g') 3 = 1 \<and> level g' > 1 then StateUpgrade else state ?S)"
      by (auto simp: isBoss_bossEnemy)
    from q have l: "level g' = 11" by simp
    from q l r11 have g': "KillEnemy 0 ?S = Some g'"
      "\<not> Enemy.active (enemies g' ! 0)" "score g' = 500" "level g' = 11"
      "\<not> bossActive g'" "\<not> bossSpawned g'" "state g' = StatePlaying"
      using g0 by simp_all
    from q l r11 obtain h h' where
      h: "level h = 11" "GenerateStage h = Some h'" "currentStage g' = currentStage h'"
      by auto
    from GenerateStage_frame[OF h(2)] h(1,3) have "currentStage g' = archetype 11" by auto
    then have "currentStage g' = StageMaze"
      by (simp add: archetype_def go_rem_nonneg go_quo_nonneg stageInterval_def StageType_defs)
    with g' show ?thesis by blast
  qed
  have 2: "\<exists>g'. KillEnemy 0 (playState 3 0 bossEnemy) = Some g' \<and> state g' = StateUpgrade"
    using KillEnemy_rewards[of 0 "playState 3 0 bossEnemy"]
    by (auto simp: isBoss_bossEnemy go_rem_nonneg stageInterval_def)
  have 3: "\<exists>g'. KillEnemy 0 (playState 7 0 grunt) = Some g' \<and> score g' = 70"
    using KillEnemy_rewards[of 0 "playState 7 0 grunt"]
    by (auto simp: isBoss_bossEnemy)
  show ?thesis using 1 2 3 by simp
qed


subsection \<open>C1: the level-up every 20 kills\<close>

text \<open>
  The level after a non-boss kill in the words of the claim, which tests the level
  after the increment against the stage interval.
\<close>

definition specLevelAfterKill :: "int \<Rightarrow> int \<Rightarrow> int" where
  "specLevelAfterKill lvl kills =
     (if kills mod 20 = 0 \<and> (lvl + 1) mod stageInterval \<noteq> 0 then lvl + 1 else lvl)"

text \<open>
  C1, as amended. When \<open>KillEnemy\<close> deactivates a non-boss enemy and the kill count
  becomes a multiple of 20, the level is incremented and \<open>spawnInterval\<close> recomputed
  (from the new level) exactly when the level before the increment is not a
  multiple of 10; otherwise level and \<open>spawnInterval\<close> stay.
\<close>

theorem KillEnemy_level_up:
  assumes "0 \<le> index" "index < int (length (enemies g))" "10 \<le> length (obstacles g)"
    "\<not> isBoss (enemies g ! nat index)"
  shows "\<exists>g'. KillEnemy index g = Some g' \<and>
           \<not> Enemy.active (enemies g' ! nat index) \<and>
           enemiesKilled g' = enemiesKilled g + 1 \<and>
           (if go_rem (enemiesKilled g') 20 = 0 \<and> go_rem (level g) 10 \<noteq> 0
            then level g' = level g + 1 \<and>
                 spawnInterval g' = max 0.5 (1.5 - real_of_int (level g') * 0.05)
            else level g' = level g \<and> spawnInterval g' = spawnInterval g)"
proof -
  from KillEnemy_total[OF assms(1-3)] obtain g' where g': "KillEnemy index g = Some g'" by blast
  have idx: "nat index < length (enemies g)" using assms(1,2) by (auto simp: nat_less_iff)
  have off: "\<not> Enemy.active (enemies g' ! nat index)"
    using idx by (simp add: KillEnemy_frame(10)[OF g'])
  note n = KillEnemy_nonboss[OF g' assms(4)]
  show ?thesis
    using g' off KillEnemy_frame(11)[OF g'] n(4,5)
    by (auto simp: levelUpDue_def)
qed

theorem KillEnemy_level_up_witness:
  "(0::int) \<le> 0 \<and> 0 < int (length (enemies (playState 3 19 grunt))) \<and>
   10 \<le> length (obstacles (playState 3 19 grunt)) \<and>
   \<not> isBoss (enemies (playState 3 19 grunt) ! nat 0) \<and>
   (\<exists>g'. KillEnemy 0 (playState 3 19 grunt) = Some g' \<and> enemiesKilled g' = 20 \<and>
         level g' = 4 \<and> spawnInterval g' = 1.3)"
  using KillEnemy_level_up[of 0 "playState 3 19 grunt"]
  by (auto simp: isBoss_bossEnemy go_rem_nonneg)

text \<open>
  C1 as stated fails both ways. At level 9 the twentieth kill raises the level to 10,
  a multiple of the stage interval; at level 10 it does not raise it, although
  11 is not a multiple.
\<close>

theorem KillEnemy_level_up_counterexample:
  "map_option level (KillEnemy 0 (playState 9 19 grunt)) = Some 10 \<and>
   specLevelAfterKill 9 20 = 9 \<and>
   map_option level (KillEnemy 0 (playState 10 19 grunt)) = Some 10 \<and>
   specLevelAfterKill 10 20 = 11"
proof -
  have nb: "\<not> isBoss (enemies (playState l 19 grunt) ! nat 0)" for l by (simp add: isBoss_bossEnemy)
  obtain a where a: "KillEnemy 0 (playState 9 19 grunt) = Some a"
    using KillEnemy_total[of 0 "playState 9 19 grunt"] by auto
  obtain b where b: "KillEnemy 0 (playState 10 19 grunt) = Some b"
    using KillEnemy_total[of 0 "playState 10 19 grunt"] by auto
  have "level a = 10"
    using KillEnemy_nonboss(4)[OF a nb] by (simp add: levelUpDue_def go_rem_nonneg)
  moreover have "level b = 10"
    using KillEnemy_nonboss(4)[OF b nb] by (simp add: levelUpDue_def go_rem_nonneg)
  ultimately show ?thesis
    by (simp add: a b specLevelAfterKill_def stageInterval_def)
qed

subsection \<open>C5: UseSkill and the skill index\<close>

text \<open>
  C5, as amended. \<open>UseSkill\<close> has no range check: for a skill index outside the
  player's slots (for a created player: outside 0, 1, 2) the read
  \<^verbatim>\<open>player.skills[skillIndex]\<close> panics. The guarded no-op is the call on a slot
  that is not ready, which returns with player and game unchanged.
\<close>

theorem UseSkill_index:
  "(skillIndex < 0 \<or> int (length (skills player)) \<le> skillIndex \<longrightarrow>
      UseSkill player skillIndex g = None) \<and>
   (skillIndex < 0 \<or> 3 \<le> skillIndex \<longrightarrow>
      UseSkill (createPlayer pid pos) skillIndex g = None) \<and>
   (0 \<le> skillIndex \<and> skillIndex < int (length (skills player)) \<and>
    \<not> ready (skills player ! nat skillIndex) \<longrightarrow>
      UseSkill player skillIndex g = Some (player, g))"
  by (auto simp: UseSkill_def length_skills_createPlayer)

theorem UseSkill_index_witness:
  "(3::int) \<le> 3 \<and>
   UseSkill (createPlayer 0 (NewVector3 0 0.5 0)) 3 (playState 1 0 grunt) = None \<and>
   \<not> ready (skills coolingPlayer ! nat 0) \<and>
   UseSkill coolingPlayer 0 (playState 1 0 grunt) = Some (coolingPlayer, playState 1 0 grunt)"
  using UseSkill_index[of 3 "createPlayer 0 (NewVector3 0 0.5 0)" "playState 1 0 grunt" 0 "NewVector3 0 0.5 0"]
        UseSkill_index[of 0 coolingPlayer "playState 1 0 grunt"]
  by (simp add: coolingPlayer_def length_skills_createPlayer)

text \<open>C5 as stated fails at index 3: the call panics instead of returning unchanged.\<close>

theorem UseSkill_index_counterexample:
  "UseSkill (createPlayer 0 (NewVector3 0 0.5 0)) 3 (playState 1 0 grunt) = None \<and>
   UseSkill (createPlayer 0 (NewVector3 0 0.5 0)) 3 (playState 1 0 grunt)
     \<noteq> Some (createPlayer 0 (NewVector3 0 0.5 0), playState 1 0 grunt)"
  by (simp add: UseSkill_def length_skills_createPlayer)


subsection \<open>C4: SpawnEnemy and an overlapping candidate\<close>

text \<open>
  C4, as amended. When the candidate drawn for the first free slot overlaps an
  obstacle, \<open>SpawnEnemy\<close> skips that slot only: the scan goes on behind it with the
  random source advanced. If no later slot is free nothing is spawned; if the next
  free slot's candidate, drawn afresh, is clear (and there is a player to target), the
  enemy is spawned there, at that second candidate.
\<close>

theorem SpawnEnemy_retries:
  assumes "firstFree Enemy.active (enemies g) = Some i"
      and "CheckObstacleCollision g (fst (spawnCandidate g)) 1"
  shows "SpawnEnemy g = SpawnEnemy_loop [Suc i..<length (enemies g)] (snd (spawnCandidate g)) \<and>
         (firstFree Enemy.active (drop (Suc i) (enemies g)) = None \<longrightarrow>
            SpawnEnemy g = Some (snd (spawnCandidate g))) \<and>
         (\<forall>k. firstFree Enemy.active (drop (Suc i) (enemies g)) = Some k \<and> players g \<noteq> [] \<and>
              \<not> CheckObstacleCollision g (fst (spawnCandidate (snd (spawnCandidate g)))) 1 \<longrightarrow>
              (\<exists>g'. SpawnEnemy g = Some g' \<and>
                    Enemy.active (enemies g' ! (Suc i + k)) \<and> \<not> isBoss (enemies g' ! (Suc i + k)) \<and>
                    Enemy.position (enemies g' ! (Suc i + k)) =
                      fst (spawnCandidate (snd (spawnCandidate g)))))"
proof -
  let ?g2 = "snd (spawnCandidate g)"
  have e2: "enemies ?g2 = enemies g" "players ?g2 = players g"
    by (simp_all add: spawnCandidate_frame)
  have c2: "CheckObstacleCollision ?g2 pos r = CheckObstacleCollision g pos r" for pos r
    by (simp add: spawnCandidate_frame)
  from firstFree_Some[OF assms(1)] have free: "\<not> Enemy.active (enemies g ! i)" by simp
  have 1: "SpawnEnemy g = SpawnEnemy_loop [Suc i..<length (enemies g)] ?g2"
    unfolding SpawnEnemy_from_firstFree[OF assms(1)]
    by (rule SpawnEnemy_loop_skip[OF free assms(2)])
  have 2: "SpawnEnemy g = Some ?g2" if "firstFree Enemy.active (drop (Suc i) (enemies g)) = None"
    using SpawnEnemy_loop_none_free[of "Suc i" ?g2] that by (simp add: 1 e2)
  have 3: "\<exists>g'. SpawnEnemy g = Some g' \<and>
                    Enemy.active (enemies g' ! (Suc i + k)) \<and> \<not> isBoss (enemies g' ! (Suc i + k)) \<and>
                    Enemy.position (enemies g' ! (Suc i + k)) = fst (spawnCandidate ?g2)"
    if k: "firstFree Enemy.active (drop (Suc i) (enemies g)) = Some k" and p: "players g \<noteq> []"
      and clear: "\<not> CheckObstacleCollision g (fst (spawnCandidate ?g2)) 1" for k
  proof -
    from firstFree_Some[OF k] have kk: "Suc i + k < length (enemies g)"
      "\<not> Enemy.active (enemies g ! (Suc i + k))" by auto
    have "SpawnEnemy g = SpawnEnemy_loop ((Suc i + k) # [Suc (Suc i + k)..<length (enemies g)]) ?g2"
      using SpawnEnemy_loop_from_drop[of "Suc i" ?g2 k] k by (simp add: 1 e2)
    also have "\<dots> = placeEnemy (Suc i + k) (fst (spawnCandidate ?g2)) (snd (spawnCandidate ?g2))"
      by (rule SpawnEnemy_loop_place) (use kk clear in \<open>simp_all add: e2 c2\<close>)
    finally have s: "SpawnEnemy g =
        placeEnemy (Suc i + k) (fst (spawnCandidate ?g2)) (snd (spawnCandidate ?g2))" .
    have "players (snd (spawnCandidate ?g2)) \<noteq> []" "Suc i + k < length (enemies (snd (spawnCandidate ?g2)))"
      using p kk by (simp_all add: spawnCandidate_frame)
    from placeEnemy_spec[OF this, of "fst (spawnCandidate ?g2)"] show ?thesis
      unfolding s by blast
  qed
  show ?thesis using 1 2 3 by blast
qed


theorem SpawnEnemy_retries_witness:
  "firstFree Enemy.active (enemies blockedState) = Some 0 \<and>
   CheckObstacleCollision blockedState (fst (spawnCandidate blockedState)) 1 \<and>
   firstFree Enemy.active (drop (Suc 0) (enemies blockedState)) = Some 0 \<and>
   players blockedState \<noteq> [] \<and>
   \<not> CheckObstacleCollision blockedState (fst (spawnCandidate (snd (spawnCandidate blockedState)))) 1 \<and>
   (\<exists>g'. SpawnEnemy blockedState = Some g' \<and> Enemy.active (enemies g' ! 1) \<and>
         \<not> isBoss (enemies g' ! 1) \<and> Enemy.position (enemies g' ! 1) = NewVector3 27.5 0.75 0)"
proof -
  have "CheckObstacleCollision blockedState (fst (spawnCandidate blockedState)) 1"
    using blockedState_facts(4,6) by simp
  from conjunct2[OF conjunct2[OF SpawnEnemy_retries[OF blockedState_facts(1) this]]]
  have "\<exists>g'. SpawnEnemy blockedState = Some g' \<and> Enemy.active (enemies g' ! (Suc 0 + 0)) \<and>
         \<not> isBoss (enemies g' ! (Suc 0 + 0)) \<and>
         Enemy.position (enemies g' ! (Suc 0 + 0)) =
           fst (spawnCandidate (snd (spawnCandidate blockedState)))"
    using blockedState_facts by simp
  then show ?thesis using blockedState_facts by simp
qed


text \<open>
  C4 as stated fails: the first candidate overlaps, and the same call spawns an enemy
  in slot 1.
\<close>

theorem SpawnEnemy_retries_counterexample:
  "CheckObstacleCollision blockedState (fst (spawnCandidate blockedState)) 1 \<and>
   \<not> Enemy.active (enemies blockedState ! 1) \<and>
   (case SpawnEnemy blockedState of
      None \<Rightarrow> False
    | Some g' \<Rightarrow> Enemy.active (enemies g' ! 1) \<and> \<not> isBoss (enemies g' ! 1))"
proof -
  let ?g2 = "snd (spawnCandidate blockedState)"
  have free: "\<not> Enemy.active (enemies blockedState ! 0)" "\<not> Enemy.active (enemies blockedState ! 1)"
    "1 < length (enemies blockedState)"
    by (simp_all add: blockedState_def NewGame_def maxEnemies_def)
  have hit: "CheckObstacleCollision blockedState (fst (spawnCandidate blockedState)) 1"
    using blockedState_facts(4,6) by simp
  have clear: "\<not> CheckObstacleCollision ?g2 (fst (spawnCandidate ?g2)) 1"
    using blockedState_facts(5,7) by (simp add: spawnCandidate_frame)
  have "SpawnEnemy blockedState = SpawnEnemy_loop (0 # [Suc 0..<length (enemies blockedState)]) blockedState"
    by (rule SpawnEnemy_from_firstFree) (simp add: blockedState_facts)
  also have "\<dots> = SpawnEnemy_loop [Suc 0..<length (enemies blockedState)] ?g2"
    by (rule SpawnEnemy_loop_skip[OF free(1) hit])
  also have "[Suc 0..<length (enemies blockedState)] = 1 # [2..<length (enemies blockedState)]"
    using free(3) by (simp add: upt_conv_Cons numeral_2_eq_2)
  also have "SpawnEnemy_loop (1 # [2..<length (enemies blockedState)]) ?g2 =
      placeEnemy 1 (fst (spawnCandidate ?g2)) (snd (spawnCandidate ?g2))"
    by (rule SpawnEnemy_loop_place) (use free clear in \<open>simp_all add: spawnCandidate_frame\<close>)
  finally have s: "SpawnEnemy blockedState =
      placeEnemy 1 (fst (spawnCandidate ?g2)) (snd (spawnCandidate ?g2))" .
  have "players (snd (spawnCandidate ?g2)) \<noteq> []" "1 < length (enemies (snd (spawnCandidate ?g2)))"
    using free(3) by (simp_all add: spawnCandidate_frame blockedState_facts)
  from placeEnemy_spec[OF this, of "fst (spawnCandidate ?g2)"] obtain g' where
    "SpawnEnemy blockedState = Some g'" "Enemy.active (enemies g' ! 1)" "\<not> isBoss (enemies g' ! 1)"
    unfolding s by blast
  then show ?thesis using hit free(2) by simp
qed


text \<open>
  Obstacles of a generated stage reach the ring of spawn positions: in the arena, a
  candidate at \<open>(19.9, 15.5)\<close> (distance between 25 and 30 from the origin) overlaps the
  east wall.
\<close>

lemma arena_blocks_spawn_ring:
  "CheckObstacleCollision arenaState (NewVector3 19.9 0.75 15.5) 1 \<and>
   25\<^sup>2 \<le> (19.9::real)\<^sup>2 + 15.5\<^sup>2 \<and> (19.9::real)\<^sup>2 + 15.5\<^sup>2 < 30\<^sup>2"
  by (simp add: CheckObstacleCollision_def CheckObstacleCollision_loop_iff list_ex_iff
      arenaState_def arenaObstacles_def arenaWalls_def aabbHit_def NewVector3_def
      power2_eq_square)


subsection \<open>C10: no regular spawn during a boss fight\<close>




subsection \<open>C7: a lethal contact ends the game\<close>





subsection \<open>C8: the cooldown invariant of the skills\<close>




subsection \<open>C3: the bounds of the health\<close>

text \<open>
  C3, as amended. Only the upper bound holds. \<open>health \<le> maxHealth\<close> holds for a
  created player and for every player of a started game, and it is kept by
  \<open>UseSkill\<close> (the Energy Shield sets health to \<open>min (health + 30) maxHealth\<close>), by a
  pickup (the heal sets it to \<open>min (health + 30) maxHealth\<close>), by an upgrade (the
  max-health upgrade adds 20 to \<open>maxHealth\<close> and sets health to it), by
  \<open>ApplyUpgrade\<close> and by every tick. There is no lower bound: a contact subtracts the
  contact damage from the health and stores the difference as it is.
\<close>

theorem health_upper_bound:
  "healthOk (createPlayer pid pos) \<and>
   (StartGame coop g0 = Some g1 \<longrightarrow> list_all healthOk (players g1)) \<and>
   (UseSkill p k g = Some (p', g') \<longrightarrow>
      Player.health p' =
        (if k = 2 \<and> ready (skills p ! 2)
         then min (Player.health p + 30) (PlayerStats.maxHealth (stats p)) else Player.health p) \<and>
      stats p' = stats p \<and> (healthOk p \<longrightarrow> healthOk p')) \<and>
   Player.health (applyPowerUp 0 p) = min (Player.health p + 30) (PlayerStats.maxHealth (stats p)) \<and>
   (healthOk p \<longrightarrow> healthOk (applyPowerUp t p)) \<and>
   Player.health (upgradePlayer 0 p) = PlayerStats.maxHealth (stats p) + 20 \<and>
   PlayerStats.maxHealth (stats (upgradePlayer 0 p)) = PlayerStats.maxHealth (stats p) + 20 \<and>
   (healthOk p \<longrightarrow> healthOk (upgradePlayer c p)) \<and>
   (list_all healthOk (players g) \<longrightarrow> list_all healthOk (players (ApplyUpgrade c g))) \<and>
   (list_all healthOk (players g) \<and> UpdatePlaying dt inp g = Some g2 \<longrightarrow>
      list_all healthOk (players g2)) \<and>
   (pIdx < length (players g) \<longrightarrow>
      Player.health (players (contactPlayer i pIdx g) ! pIdx) =
        (if playerDist i pIdx g < collisionDist (enemies g ! i)
         then Player.health (players g ! pIdx) - contactDamage (enemies g ! i)
         else Player.health (players g ! pIdx)) \<and>
      stats (players (contactPlayer i pIdx g) ! pIdx) = stats (players g ! pIdx))"
proof (intro conjI impI)
  show "healthOk (createPlayer pid pos)" by (rule createPlayer_healthOk)
  show "list_all healthOk (players g1)" if "StartGame coop g0 = Some g1"
    using that by (auto simp: StartGame_def Let_def dest: ResetGame_healthOk)
  show "Player.health p' =
        (if k = 2 \<and> ready (skills p ! 2)
         then min (Player.health p + 30) (PlayerStats.maxHealth (stats p)) else Player.health p)"
    if "UseSkill p k g = Some (p', g')" using that by (rule UseSkill_health)
  show "stats p' = stats p" if "UseSkill p k g = Some (p', g')"
    using that by (rule UseSkill_stats(1))
  show "healthOk p'" if "UseSkill p k g = Some (p', g')" "healthOk p"
    using that by (rule UseSkill_healthOk)
  show "Player.health (applyPowerUp 0 p) = min (Player.health p + 30) (PlayerStats.maxHealth (stats p))"
    by (simp add: applyPowerUp_def)
  show "healthOk (applyPowerUp t p)" if "healthOk p" using that by (rule applyPowerUp_healthOk)
  show "Player.health (upgradePlayer 0 p) = PlayerStats.maxHealth (stats p) + 20"
    "PlayerStats.maxHealth (stats (upgradePlayer 0 p)) = PlayerStats.maxHealth (stats p) + 20"
    by (simp_all add: upgradePlayer_def Let_def)
  show "healthOk (upgradePlayer c p)" if "healthOk p" using that by (rule upgradePlayer_healthOk)
  show "list_all healthOk (players (ApplyUpgrade c g))" if "list_all healthOk (players g)"
    using that by (rule ApplyUpgrade_healthOk)
  show "list_all healthOk (players g2)"
    if "list_all healthOk (players g) \<and> UpdatePlaying dt inp g = Some g2"
    using UpdatePlaying_inv[of dt inp g g2 healthOk] healthOk_invariant[of dt] that by simp
  show "Player.health (players (contactPlayer i pIdx g) ! pIdx) =
        (if playerDist i pIdx g < collisionDist (enemies g ! i)
         then Player.health (players g ! pIdx) - contactDamage (enemies g ! i)
         else Player.health (players g ! pIdx))"
    "stats (players (contactPlayer i pIdx g) ! pIdx) = stats (players g ! pIdx)"
    if "pIdx < length (players g)"
    using that by (simp_all add: contactPlayer_players)
qed

theorem health_upper_bound_witness:
  "healthOk (createPlayer 0 (NewVector3 0 0.5 0)) \<and>
   (\<exists>g1. StartGame True (NewGame (sconst 0)) = Some g1 \<and> list_all healthOk (players g1)) \<and>
   healthOk woundedPlayer \<and> Player.health woundedPlayer = 90 \<and>
   (\<exists>p' g'. UseSkill woundedPlayer 2 (playState 1 0 grunt) = Some (p', g') \<and>
       Player.health p' = 100 \<and> PlayerStats.maxHealth (stats p') = 100 \<and> healthOk p') \<and>
   Player.health (applyPowerUp 0 woundedPlayer) = 100 \<and> healthOk (applyPowerUp 0 woundedPlayer) \<and>
   Player.health (upgradePlayer 0 woundedPlayer) = 120 \<and>
   PlayerStats.maxHealth (stats (upgradePlayer 0 woundedPlayer)) = 120 \<and>
   healthOk (upgradePlayer 0 woundedPlayer) \<and>
   list_all healthOk (players (ApplyUpgrade 0 (playState 1 0 grunt))) \<and>
   (\<exists>g2. UpdatePlaying (1 / 64) idle contactState = Some g2 \<and>
       list_all healthOk (players contactState) \<and> list_all healthOk (players g2)) \<and>
   0 < length (players contactState) \<and>
   playerDist 0 0 contactState < collisionDist (enemies contactState ! 0) \<and>
   Player.health (players (contactPlayer 0 0 contactState) ! 0) = - 10 \<and>
   PlayerStats.maxHealth (stats (players (contactPlayer 0 0 contactState) ! 0)) = 100"
proof -
  let ?c = "createPlayer 0 (NewVector3 0 0.5 0)"
  let ?g = "playState 1 0 grunt"
  note T = health_upper_bound
  note W = woundedPlayer_facts
  obtain g1 where g1: "StartGame True (NewGame (sconst 0)) = Some g1"
    using StartGame_total[OF NewGame_obstacles] by blast
  obtain p' g' where u: "UseSkill woundedPlayer 2 ?g = Some (p', g')"
    using W(5) by blast
  have a: "healthOk ?c" using T[of 0 "NewVector3 0 0.5 0"] by blast
  have b: "list_all healthOk (players g1)"
    using T[where coop = True and ?g0.0 = "NewGame (sconst 0)" and ?g1.0 = g1] g1 by blast
  from T[where p = woundedPlayer and k = 2 and g = ?g and p' = p' and g' = g'] u W(1)
  have c0: "Player.health p' =
        (if (2::int) = 2 \<and> ready (skills woundedPlayer ! 2)
         then min (Player.health woundedPlayer + 30) (PlayerStats.maxHealth (stats woundedPlayer))
         else Player.health woundedPlayer)" "stats p' = stats woundedPlayer" "healthOk p'"
    by blast+
  have c: "Player.health p' = 100" "PlayerStats.maxHealth (stats p') = 100"
    using c0(1,2) by (simp_all add: W)
  from T[where p = woundedPlayer and t = 0 and c = 0] W(1)
  have d0: "Player.health (applyPowerUp 0 woundedPlayer) =
        min (Player.health woundedPlayer + 30) (PlayerStats.maxHealth (stats woundedPlayer))"
    "healthOk (applyPowerUp 0 woundedPlayer)"
    "Player.health (upgradePlayer 0 woundedPlayer) = PlayerStats.maxHealth (stats woundedPlayer) + 20"
    "PlayerStats.maxHealth (stats (upgradePlayer 0 woundedPlayer)) =
       PlayerStats.maxHealth (stats woundedPlayer) + 20"
    "healthOk (upgradePlayer 0 woundedPlayer)"
    by blast+
  have d: "Player.health (applyPowerUp 0 woundedPlayer) = 100"
    "Player.health (upgradePlayer 0 woundedPlayer) = 120"
    "PlayerStats.maxHealth (stats (upgradePlayer 0 woundedPlayer)) = 120"
    using d0(1,3,4) by (simp_all add: W)
  have e: "list_all healthOk (players (ApplyUpgrade 0 ?g))"
    using T[where g = ?g and c = 0] playState_players_ok(2)[of 1 0 grunt] by blast
  obtain g2 where g2: "UpdatePlaying (1 / 64) idle contactState = Some g2"
    using contactState_tick by blast
  have ok: "list_all healthOk (players contactState)"
    by (simp add: contactState_simps healthOk_def createPlayer_def defaultStats_def Let_def)
  have f: "list_all healthOk (players g2)"
    using T[where dt = "1 / 64" and g = contactState and inp = idle and ?g2.0 = g2] ok g2 by blast
  have l: "0 < length (players contactState)" by (simp add: contactState_simps)
  have n: "playerDist 0 0 contactState < collisionDist (enemies contactState ! 0)"
    using contactState_lethal by (simp add: contactState_simps)
  from T[where pIdx = 0 and g = contactState and i = 0] l
  have h0: "Player.health (players (contactPlayer 0 0 contactState) ! 0) =
        (if playerDist 0 0 contactState < collisionDist (enemies contactState ! 0)
         then Player.health (players contactState ! 0) - contactDamage (enemies contactState ! 0)
         else Player.health (players contactState ! 0))"
    "stats (players (contactPlayer 0 0 contactState) ! 0) = stats (players contactState ! 0)"
    by blast+
  have h: "Player.health (players (contactPlayer 0 0 contactState) ! 0) = - 10"
    "PlayerStats.maxHealth (stats (players (contactPlayer 0 0 contactState) ! 0)) = 100"
    using h0 n contactState_lethal
    by (simp_all add: contactState_simps createPlayer_def defaultStats_def Let_def)
  have 1: "\<exists>g1. StartGame True (NewGame (sconst 0)) = Some g1 \<and> list_all healthOk (players g1)"
    using g1 b by blast
  have 2: "\<exists>p' g'. UseSkill woundedPlayer 2 ?g = Some (p', g') \<and>
       Player.health p' = 100 \<and> PlayerStats.maxHealth (stats p') = 100 \<and> healthOk p'"
    using u c c0(3) by blast
  have 3: "\<exists>g2. UpdatePlaying (1 / 64) idle contactState = Some g2 \<and>
       list_all healthOk (players contactState) \<and> list_all healthOk (players g2)"
    using g2 ok f by blast
  from a 1 W(1,2) 2 d(1) d0(2) d(2,3) d0(5) e 3 l n h show ?thesis by blast
qed

text \<open>
  C3 as stated fails below: a player with 10 of 100 health standing on an enemy has a
  health of \<open>-10\<close> after the tick (and already when the collision loop is left).
\<close>

theorem health_lower_bound_counterexample:
  "list_all healthOk (players contactState) \<and> Player.health (players contactState ! 0) = 10 \<and>
   (\<exists>g'. UpdatePlaying (1 / 64) idle contactState = Some g' \<and>
         Player.health (players g' ! 0) = - 10 \<and> \<not> 0 \<le> Player.health (players g' ! 0)) \<and>
   Player.health (players (fold (contactPlayer 0) [0..<length (players contactState)] contactState) ! 0)
     = - 10"
proof -
  have "players (contactPlayer 0 0 contactState) =
     [(createPlayer 0 (NewVector3 0 0.5 0))\<lparr>Player.health := - 10\<rparr>]"
    using contactState_lethal
    by (simp add: contactPlayer_players contactState_simps)
  then have 1: "Player.health
      (players (fold (contactPlayer 0) [0..<length (players contactState)] contactState) ! 0) = - 10"
    by (simp add: contactState_simps)
  have 2: "list_all healthOk (players contactState)" "Player.health (players contactState ! 0) = 10"
    by (simp_all add: contactState_simps healthOk_def createPlayer_def defaultStats_def Let_def)
  from contactState_tick obtain g' where
    "UpdatePlaying (1 / 64) idle contactState = Some g'"
    "players g' = [(createPlayer 0 (NewVector3 0 0.5 0))\<lparr>Player.health := - 10\<rparr>]"
    by blast
  then have "\<exists>g'. UpdatePlaying (1 / 64) idle contactState = Some g' \<and>
         Player.health (players g' ! 0) = - 10 \<and> \<not> 0 \<le> Player.health (players g' ! 0)"
    by simp
  with 1 2 show ?thesis by blast
qed

end
